theory Spec2Isabelle
  imports Complex_Main "HOL-Library.Sublist"
begin

section \<open>JavaScript strings and errors\<close>

text \<open>
  Strings are modelled as \<open>string\<close> (a list of 8-bit characters). The case mappings below
  act on the ASCII letters and leave every other character alone; \<open>trim\<close> strips the ASCII
  white space and line terminators that \<open>String.prototype.trim\<close> strips. The development
  therefore speaks about ASCII text, which is what rarity names, wallet addresses, error
  messages and transaction hashes are made of.
\<close>

definition toLowerCase_char :: "char \<Rightarrow> char" where
  "toLowerCase_char c =
     (let n = (of_char c :: nat) in if 65 \<le> n \<and> n \<le> 90 then char_of (n + 32) else c)"

definition toUpperCase_char :: "char \<Rightarrow> char" where
  "toUpperCase_char c =
     (let n = (of_char c :: nat) in if 97 \<le> n \<and> n \<le> 122 then char_of (n - 32) else c)"

definition toLowerCase :: "string \<Rightarrow> string" where
  "toLowerCase s = map toLowerCase_char s"

definition toUpperCase :: "string \<Rightarrow> string" where
  "toUpperCase s = map toUpperCase_char s"

definition is_ws :: "char \<Rightarrow> bool" where
  "is_ws c = ((of_char c :: nat) \<in> {9, 10, 11, 12, 13, 32})"

definition trim :: "string \<Rightarrow> string" where
  "trim s = rev (dropWhile is_ws (rev (dropWhile is_ws s)))"

text \<open>\<open>s.includes(t)\<close>: \<open>t\<close> occurs in \<open>s\<close> as a contiguous substring.\<close>

fun str_includes :: "string \<Rightarrow> string \<Rightarrow> bool" where
  "str_includes [] t = (t = [])"
| "str_includes (x # xs) t = (prefix t (x # xs) \<or> str_includes xs t)"

text \<open>\<open>s.charAt(0)\<close> is the empty string when \<open>s\<close> is empty; \<open>s.slice(1)\<close> drops one character.\<close>

definition charAt0 :: "string \<Rightarrow> string" where
  "charAt0 s = take 1 s"

definition slice1 :: "string \<Rightarrow> string" where
  "slice1 s = drop 1 s"

text \<open>A thrown \<open>Error\<close> object, carrying its message.\<close>

datatype error = Error (message: string)

section \<open>Rarity normalisation (ImprovedOnchainStakingService.normalizeRarity)\<close>

text \<open>
  The argument has type \<open>string | null\<close>; \<open>None\<close> is \<open>null\<close>. The test \<open>!rarity\<close> holds for
  \<open>null\<close> and for the empty string. The \<open>switch\<close> compares the lower-cased, trimmed input;
  the default branch capitalises the input as given (untrimmed).
\<close>

definition capitalize :: "string \<Rightarrow> string" where
  "capitalize s = toUpperCase (charAt0 s) @ toLowerCase (slice1 s)"

definition normalizeRarity :: "string option \<Rightarrow> string" where
  "normalizeRarity rarity =
     (case rarity of
        None \<Rightarrow> ''Common''
      | Some r \<Rightarrow>
          if r = [] then ''Common''
          else
            (let normalized = trim (toLowerCase r) in
             if normalized = ''common'' then ''Common''
             else if normalized = ''rare'' then ''Rare''
             else if normalized = ''legendary'' then ''Legendary''
             else if normalized = ''platinum'' then ''Platinum''
             else if normalized = ''silver'' then ''Silver''
             else if normalized = ''gold'' then ''Gold''
             else if normalized = ''epic'' then ''Legendary''
             else if normalized = ''ultra rare'' then ''Legendary''
             else if normalized = ''super rare'' then ''Rare''
             else capitalize r))"





section \<open>Optimistic view cache (NFTContext provider)\<close>

text \<open>
  \<open>ContextNFT\<close> is the cached projection of one asset. The fields the optimistic operations
  read or write are listed; every other optional field of the interface rides along in the
  record's extension and is copied by the object spread.
\<close>

datatype store = Offchain | Onchain

datatype staking_source = SrcNone | SrcOffchain | SrcOnchain

datatype claiming_status = Claiming | Completed | Failed

record ContextNFT =
  nft_id :: string
  name :: string
  rarity :: string
  status :: store
  isStaked :: bool
  stakingSource :: staking_source
  dailyReward :: real
  wallet_address :: string
  staked_at :: "string option"
  stakeTimestamp :: "nat option"
  lastUpdated :: "nat option"
  optimisticUpdate :: "bool option"
  claimingStatus :: "claiming_status option"

text \<open>
  The provider's React state, and what a callback of the provider closes over. Each of the
  operations below is created by \<open>useCallback\<close> during a render and keeps the \<open>allNFTs\<close> and
  \<open>backupState\<close> of that render (\<open>render\<close>); \<open>render_of s\<close> is the render made when the state
  is \<open>s\<close>. A caller may hold a callback of an earlier render. The functional updater
  \<open>setAllNFTs(prev => ...)\<close>, in contrast, is applied to the state current at the call.
\<close>

record NFTContextState =
  allNFTs :: "ContextNFT list"
  backupState :: "ContextNFT list"
  hasOptimisticUpdates :: bool

record render =
  rendered_allNFTs :: "ContextNFT list"
  rendered_backupState :: "ContextNFT list"

definition render_of :: "NFTContextState \<Rightarrow> render" where
  "render_of s = \<lparr>rendered_allNFTs = allNFTs s, rendered_backupState = backupState s\<rparr>"

text \<open>
  \<open>rewards[rarity.toLowerCase()] || 0.1\<close> over the literal table of the source (rarity names
  that are members of \<open>Object.prototype\<close> are not rarities and are not modelled).
\<close>

definition getDailyRewardForRarity :: "string \<Rightarrow> real" where
  "getDailyRewardForRarity r =
     (case map_of
        [(''common'', 0.1), (''rare'', 0.4), (''legendary'', 1.0),
         (''platinum'', 2.5), (''silver'', 8.0), (''gold'', 30.0)] (toLowerCase r) of
        Some x \<Rightarrow> x
      | None \<Rightarrow> 0.1)"

text \<open>
  \<open>optimisticStake\<close> as created by render \<open>r\<close>: the snapshot saved is the list that render saw,
  the update is mapped over the current list. \<open>now\<close> is the value of \<open>Date.now()\<close> at the call.
\<close>

definition optimisticStake ::
  "render \<Rightarrow> string list \<Rightarrow> staking_source \<Rightarrow> nat \<Rightarrow> NFTContextState \<Rightarrow> NFTContextState" where
  "optimisticStake r nftIds src now s =
     s\<lparr>backupState := rendered_allNFTs r,
       hasOptimisticUpdates := True,
       allNFTs :=
         map (\<lambda>nft.
               if nft_id nft \<in> set nftIds
               then nft\<lparr>isStaked := True, stakingSource := src, stakeTimestamp := Some now,
                        dailyReward := getDailyRewardForRarity (rarity nft)\<rparr>
               else nft)
             (allNFTs s)\<rparr>"

definition optimisticUnstake ::
  "render \<Rightarrow> string list \<Rightarrow> NFTContextState \<Rightarrow> NFTContextState" where
  "optimisticUnstake r nftIds s =
     s\<lparr>backupState := rendered_allNFTs r,
       hasOptimisticUpdates := True,
       allNFTs :=
         map (\<lambda>nft.
               if nft_id nft \<in> set nftIds
               then nft\<lparr>isStaked := False, stakingSource := SrcNone, stakeTimestamp := None\<rparr>
               else nft)
             (allNFTs s)\<rparr>"

text \<open>
  A \<open>Partial<ContextNFT>\<close>: each field is either absent (\<open>None\<close>) or carries the overriding
  value. \<open>apply_updates\<close> is the spread \<open>{ ...nft, ...updates }\<close>.
\<close>

record ContextNFT_partial =
  p_name :: "string option"
  p_rarity :: "string option"
  p_status :: "store option"
  p_isStaked :: "bool option"
  p_stakingSource :: "staking_source option"
  p_dailyReward :: "real option"
  p_staked_at :: "string option option"
  p_stakeTimestamp :: "nat option option"
  p_claimingStatus :: "claiming_status option option"

definition override :: "'a option \<Rightarrow> 'a \<Rightarrow> 'a" where
  "override u v = (case u of None \<Rightarrow> v | Some w \<Rightarrow> w)"

definition apply_updates :: "ContextNFT_partial \<Rightarrow> ContextNFT \<Rightarrow> ContextNFT" where
  "apply_updates u nft =
     nft\<lparr>name := override (p_name u) (name nft),
         rarity := override (p_rarity u) (rarity nft),
         status := override (p_status u) (status nft),
         isStaked := override (p_isStaked u) (isStaked nft),
         stakingSource := override (p_stakingSource u) (stakingSource nft),
         dailyReward := override (p_dailyReward u) (dailyReward nft),
         staked_at := override (p_staked_at u) (staked_at nft),
         stakeTimestamp := override (p_stakeTimestamp u) (stakeTimestamp nft),
         claimingStatus := override (p_claimingStatus u) (claimingStatus nft)\<rparr>"

definition updateNFTOptimistically ::
  "render \<Rightarrow> string \<Rightarrow> ContextNFT_partial \<Rightarrow> nat \<Rightarrow> NFTContextState \<Rightarrow> NFTContextState" where
  "updateNFTOptimistically r nftId updates now s =
     s\<lparr>backupState := rendered_allNFTs r,
       hasOptimisticUpdates := True,
       allNFTs :=
         map (\<lambda>nft.
               if nft_id nft = nftId
               then (apply_updates updates nft)\<lparr>lastUpdated := Some now,
                                                optimisticUpdate := Some True\<rparr>
               else nft)
             (allNFTs s)\<rparr>"

text \<open>
  \<open>revertOptimisticUpdate\<close> as created by render \<open>r\<close>: both the test and the list restored are
  the \<open>backupState\<close> that render saw (\<open>setAllNFTs(backupState)\<close> is not a functional update).
\<close>

definition revertOptimisticUpdate :: "render \<Rightarrow> NFTContextState \<Rightarrow> NFTContextState" where
  "revertOptimisticUpdate r s =
     (if length (rendered_backupState r) > 0
      then s\<lparr>allNFTs := rendered_backupState r, backupState := [], hasOptimisticUpdates := False\<rparr>
      else s)"

text \<open>\<open>clearOptimisticUpdates\<close> closes over nothing.\<close>

definition clearOptimisticUpdates :: "NFTContextState \<Rightarrow> NFTContextState" where
  "clearOptimisticUpdates s = s\<lparr>backupState := [], hasOptimisticUpdates := False\<rparr>"

text \<open>A cache holding one unstaked off-chain asset, and an update that flags it as claiming.\<close>

definition example_nft :: ContextNFT where
  "example_nft =
     \<lparr>nft_id = ''a'', name = ''NFT a'', rarity = ''rare'', status = Offchain, isStaked = False,
      stakingSource = SrcNone, dailyReward = 0, wallet_address = ''0xaa'', staked_at = None,
      stakeTimestamp = None, lastUpdated = None, optimisticUpdate = None,
      claimingStatus = None\<rparr>"

definition example_cache :: NFTContextState where
  "example_cache = \<lparr>allNFTs = [example_nft], backupState = [], hasOptimisticUpdates = False\<rparr>"

definition example_update :: ContextNFT_partial where
  "example_update =
     \<lparr>p_name = None, p_rarity = None, p_status = None, p_isStaked = None,
      p_stakingSource = None, p_dailyReward = None, p_staked_at = None,
      p_stakeTimestamp = None, p_claimingStatus = Some (Some Claiming)\<rparr>"

section \<open>Numbers and strings\<close>

text \<open>\<open>n.toString()\<close> for a natural number: its decimal digits.\<close>

definition digit_char :: "nat \<Rightarrow> char" where
  "digit_char d = char_of (48 + d)"

fun toString :: "nat \<Rightarrow> string" where
  "toString n = (if n < 10 then [digit_char n] else toString (n div 10) @ [digit_char (n mod 10)])"

declare toString.simps [simp del]

definition digit_val :: "char \<Rightarrow> nat option" where
  "digit_val c =
     (let n = (of_char c :: nat) in if 48 \<le> n \<and> n \<le> 57 then Some (n - 48) else None)"

definition hex_val :: "char \<Rightarrow> nat option" where
  "hex_val c =
     (let n = (of_char c :: nat) in
      if 48 \<le> n \<and> n \<le> 57 then Some (n - 48)
      else if 65 \<le> n \<and> n \<le> 70 then Some (n - 55)
      else if 97 \<le> n \<and> n \<le> 102 then Some (n - 87)
      else None)"

text \<open>The longest prefix of digits, read in the given base; \<open>None\<close> when there is no digit.\<close>

fun parse_digits :: "(char \<Rightarrow> nat option) \<Rightarrow> nat \<Rightarrow> nat option \<Rightarrow> string \<Rightarrow> nat option" where
  "parse_digits dv base acc [] = acc"
| "parse_digits dv base acc (c # cs) =
     (case dv c of
        None \<Rightarrow> acc
      | Some d \<Rightarrow> parse_digits dv base (Some (base * (case acc of None \<Rightarrow> 0 | Some a \<Rightarrow> a) + d)) cs)"

text \<open>
  \<open>parseInt(s)\<close> without a radix: leading white space is skipped, a sign is accepted, a
  \<open>0x\<close> prefix selects base 16, and the result is \<open>NaN\<close> (here \<open>None\<close>) when no digit follows.
  Values stay below \<open>2^53\<close> for token ids, so the result is modelled as an exact integer.
\<close>

definition parseInt :: "string \<Rightarrow> int option" where
  "parseInt s =
     (let s1 = dropWhile is_ws s;
          neg = (case s1 of [] \<Rightarrow> False | c # cs \<Rightarrow> c = CHR ''-'');
          s2 = (case s1 of [] \<Rightarrow> [] | c # cs \<Rightarrow> if c = CHR ''-'' \<or> c = CHR ''+'' then cs else s1);
          r = (if prefix ''0x'' s2 \<or> prefix ''0X'' s2
               then parse_digits hex_val 16 None (drop 2 s2)
               else parse_digits digit_val 10 None s2)
      in map_option (\<lambda>n. if neg then - int n else int n) r)"

section \<open>Chain reads (ImprovedOnchainStakingService)\<close>

text \<open>
  \<open>retryRPCCall(operation, maxRetries = 2)\<close>. The argument \<open>operation k\<close> is the outcome of the
  \<open>k\<close>-th invocation of the read. The body awaits the operation once and rethrows its
  error; \<open>maxRetries\<close> is not used.
\<close>

definition retryRPCCall :: "bool \<Rightarrow> (nat \<Rightarrow> error + 'a) \<Rightarrow> nat \<Rightarrow> error + 'a" where
  "retryRPCCall readOnlyWeb3_ok operation maxRetries =
     (if \<not> readOnlyWeb3_ok then Inl (Error ''Read-only Web3 instance not initialized'')
      else operation 0)"

text \<open>
  The environment of \<open>getStakeInfo\<close>: whether \<open>initializeContracts\<close> throws, whether the
  staking contract object exists afterwards, the library functions \<open>toChecksumAddress\<close> and
  \<open>fromWei(_, 'ether')\<close>, and the outcome of the \<open>k\<close>-th invocation of the contract's
  \<open>getStakeInfo\<close> read (staked token ids and pending rewards in wei).
\<close>

record stake_info_env =
  initializeContracts_error :: "error option"
  stakingContract_present :: bool
  toChecksumAddress :: "string \<Rightarrow> error + string"
  getStakeInfo_call :: "nat \<Rightarrow> string \<Rightarrow> error + (nat list \<times> nat)"
  fromWei :: "nat \<Rightarrow> string"

record StakeInfo =
  stakedNFTs :: "string list"
  pendingRewards :: string

text \<open>The body of the \<open>try\<close> block of \<open>getStakeInfo\<close>.\<close>

definition getStakeInfo_try :: "stake_info_env \<Rightarrow> string \<Rightarrow> error + StakeInfo" where
  "getStakeInfo_try env walletAddress =
     (case initializeContracts_error env of
        Some e \<Rightarrow> Inl e
      | None \<Rightarrow>
          if \<not> stakingContract_present env then Inl (Error ''Staking contract not initialized'')
          else
            (case toChecksumAddress env walletAddress of
               Inl e \<Rightarrow> Inl e
             | Inr formattedAddress \<Rightarrow>
                 (case getStakeInfo_call env 0 formattedAddress of
                    Inl e \<Rightarrow> Inl e
                  | Inr (stakedTokens, rewards) \<Rightarrow>
                      Inr \<lparr>stakedNFTs = map toString stakedTokens,
                           pendingRewards = fromWei env rewards\<rparr>)))"

text \<open>The \<open>catch\<close> block logs the error and returns the empty result.\<close>

definition getStakeInfo :: "stake_info_env \<Rightarrow> string \<Rightarrow> StakeInfo" where
  "getStakeInfo env walletAddress =
     (case getStakeInfo_try env walletAddress of
        Inl e \<Rightarrow> \<lparr>stakedNFTs = [], pendingRewards = ''0''\<rparr>
      | Inr r \<Rightarrow> r)"

text \<open>
  An environment whose first read times out although a second read would answer that
  token 7 is staked with one unit of pending rewards.
\<close>

definition flaky_env :: stake_info_env where
  "flaky_env =
     \<lparr>initializeContracts_error = None,
      stakingContract_present = True,
      toChecksumAddress = (\<lambda>a. Inr a),
      getStakeInfo_call =
        (\<lambda>k a. if k = 0 then Inl (Error ''request timed out'') else Inr ([7], 1)),
      fromWei = (\<lambda>w. toString w)\<rparr>"

section \<open>The staking service object (ImprovedOnchainStakingService)\<close>

text \<open>
  The mutable fields of the service. A field holding an object (\<open>web3\<close>, \<open>readOnlyWeb3\<close> and
  the four contract handles) is either \<open>null\<close> (\<open>False\<close>) or assigned (\<open>True\<close>); \<open>userAccount\<close>
  is \<open>null\<close>, \<open>undefined\<close> or an address.
\<close>

datatype account = Null | Undefined | Account string

record service =
  web3 :: bool
  readOnlyWeb3 :: bool
  nftContract :: bool
  stakingContract :: bool
  readOnlyNftContract :: bool
  readOnlyStakingContract :: bool
  userAccount :: account


text \<open>
  Reading a property of \<open>null\<close> raises a \<open>TypeError\<close>; the messages are those of the V8 engine.
  \<open>contract_call c r\<close> is a call \<open>this.c.methods.m(...).call()\<close> or \<open>.send(...)\<close> whose outcome on
  an assigned contract handle is \<open>r\<close>; \<open>web3_call\<close> is the same for \<open>this.web3.eth\<close> and
  \<open>this.readOnlyWeb3.eth\<close>.
\<close>

definition null_methods :: error where
  "null_methods = Error ''Cannot read properties of null (reading 'methods')''"

definition null_eth :: error where
  "null_eth = Error ''Cannot read properties of null (reading 'eth')''"

definition null_toLowerCase :: "account \<Rightarrow> error" where
  "null_toLowerCase a =
     (if a = Undefined then Error ''Cannot read properties of undefined (reading 'toLowerCase')''
      else Error ''Cannot read properties of null (reading 'toLowerCase')'')"

definition contract_call :: "bool \<Rightarrow> error + 'a \<Rightarrow> error + 'a" where
  "contract_call contract r = (if contract then r else Inl null_methods)"

definition web3_call :: "bool \<Rightarrow> error + 'a \<Rightarrow> error + 'a" where
  "web3_call w r = (if w then r else Inl null_eth)"

text \<open>
  What the browser contributes to the initialisation: whether \<open>new Web3(rpcUrls[0])\<close> throws,
  and the wallet's answer to \<open>eth_requestAccounts\<close>.
\<close>

record provider_env =
  new_Web3 :: "error option"
  eth_requestAccounts :: "error + string list"

text \<open>
  \<open>initializeWeb3\<close>. After assigning \<open>readOnlyWeb3\<close> the method calls
  \<open>this.initializeReadOnlyContracts()\<close>. The class defines no method of that name, so the call
  raises a \<open>TypeError\<close>, which the \<open>catch\<close> of \<open>initializeWeb3\<close> logs and swallows. The
  statements that follow the call inside the \<open>try\<close> (the assignment of \<open>web3\<close> from the wallet
  provider, the account lookup, the chain id check) are therefore never executed.
\<close>

definition initializeWeb3 :: "provider_env \<Rightarrow> service \<Rightarrow> service" where
  "initializeWeb3 env st =
     (case new_Web3 env of
        Some e \<Rightarrow> st
      | None \<Rightarrow> st\<lparr>readOnlyWeb3 := True\<rparr>)"


text \<open>
  \<open>initializeContracts\<close>: the error it throws, if any, and the fields afterwards. Its \<open>catch\<close>
  logs and rethrows.
\<close>

definition initializeContracts :: "provider_env \<Rightarrow> service \<Rightarrow> (error + unit) \<times> service" where
  "initializeContracts env st =
     (let st1 = (if \<not> web3 st \<or> \<not> readOnlyWeb3 st then initializeWeb3 env st else st) in
      if \<not> web3 st1 \<or> \<not> readOnlyWeb3 st1
      then (Inl (Error ''No Ethereum provider available''), st1)
      else
        (case eth_requestAccounts env of
           Inl e \<Rightarrow> (Inl e, st1)
         | Inr accounts \<Rightarrow>
             (Inr (),
              st1\<lparr>userAccount := (case accounts of [] \<Rightarrow> Undefined | a # rest \<Rightarrow> Account a),
                  nftContract := True, stakingContract := True,
                  readOnlyNftContract := True, readOnlyStakingContract := True\<rparr>)))"

text \<open>
  The fields as they are when no initialisation has got further than \<open>initializeWeb3\<close> gets.
\<close>

definition uninitialised :: "service \<Rightarrow> bool" where
  "uninitialised st =
     (\<not> web3 st \<and> \<not> nftContract st \<and> \<not> stakingContract st \<and> \<not> readOnlyNftContract st
      \<and> \<not> readOnlyStakingContract st \<and> userAccount st = Null)"

section \<open>Approval orchestration (checkAndHandleApproval)\<close>

text \<open>
  The chain as the approval code sees it: what each read or send answers when it is made on
  an assigned contract handle. Reads made inside the retry loop are indexed by the loop's
  \<open>attempt\<close>; the wallet's answer to a \<open>setApprovalForAll\<close> request and the verification read
  that follows it are indexed by the number of requests made before. \<open>STAKING_CONTRACT\<close> is
  the configured staking contract address.
\<close>

record approval_env =
  STAKING_CONTRACT :: string
  ownerOf_read :: "string \<Rightarrow> error + string"
  isApprovedForAll_read :: "nat \<Rightarrow> error + bool"
  getApproved_read :: "nat \<Rightarrow> error + string"
  setApprovalForAll_send :: "nat \<Rightarrow> error + string"
  isApprovedForAll_verify :: "nat \<Rightarrow> error + bool"

text \<open>
  \<open>performAutomaticApproval\<close>: requests \<open>setApprovalForAll\<close> through \<open>this.nftContract\<close>, then
  verifies with a read through \<open>this.readOnlyNftContract\<close>. It never throws. The second
  component counts the approval transactions requested so far. (The gas price comes from
  \<open>getGasPriceWithFallback\<close>, which catches every error and cannot throw.)
\<close>

definition performAutomaticApproval ::
  "approval_env \<Rightarrow> service \<Rightarrow> string \<Rightarrow> nat \<Rightarrow> bool \<times> nat" where
  "performAutomaticApproval env st walletAddress sends =
     (let r =
        (case contract_call (nftContract st) (setApprovalForAll_send env sends) of
           Inl e \<Rightarrow> Inl e
         | Inr tx \<Rightarrow>
             (case retryRPCCall (readOnlyWeb3 st)
                     (\<lambda>_. contract_call (readOnlyNftContract st) (isApprovedForAll_verify env sends)) 2 of
                Inl e \<Rightarrow> Inl e
              | Inr isApproved \<Rightarrow> Inr isApproved));
          sends' = (if nftContract st then Suc sends else sends)
      in case r of
           Inr b \<Rightarrow> (b, sends')
         | Inl e \<Rightarrow>
             if message e \<noteq> [] \<and>
                (str_includes (message e) ''User denied'' \<or> str_includes (message e) ''cancelled'')
             then (False, sends')
             else if message e \<noteq> [] \<and> str_includes (message e) ''already approved''
             then (True, sends')
             else (False, sends'))"

text \<open>
  One pass through the \<open>try\<close> block inside the \<open>while\<close> loop. \<open>Inr (Some b)\<close> is \<open>return b\<close>,
  \<open>Inr None\<close> is reaching the end of the block (the attempt counter is then advanced), and
  \<open>Inl e\<close> is an exception reaching the outer \<open>catch\<close>. The two local flags are kept as in
  the source: each is assigned only inside its own inner \<open>try\<close>.
\<close>

definition approval_try_block ::
  "approval_env \<Rightarrow> service \<Rightarrow> string \<Rightarrow> string \<Rightarrow> nat \<Rightarrow> nat \<Rightarrow> (error + bool option) \<times> nat" where
  "approval_try_block env st walletAddress tokenId attempt sends =
     (let r1 = retryRPCCall (readOnlyWeb3 st)
                 (\<lambda>_. contract_call (readOnlyNftContract st) (isApprovedForAll_read env attempt)) 2;
          isApprovedForAll = (case r1 of Inr b \<Rightarrow> b | Inl _ \<Rightarrow> False)
      in
      if isApprovedForAll then (Inr (Some True), sends)
      else if (case r1 of
                 Inl e \<Rightarrow> message e \<noteq> [] \<and> str_includes (message e) ''Internal JSON-RPC error''
               | Inr _ \<Rightarrow> False)
      then (Inr (Some True), sends)
      else
        (let r2 = retryRPCCall (readOnlyWeb3 st)
                    (\<lambda>_. contract_call (readOnlyNftContract st) (getApproved_read env attempt)) 2;
             isIndividuallyApproved =
               (case r2 of
                  Inr approvedAddress \<Rightarrow>
                    toLowerCase approvedAddress = toLowerCase (STAKING_CONTRACT env)
                | Inl _ \<Rightarrow> False)
         in
         if isIndividuallyApproved then (Inr (Some True), sends)
         else if \<not> isApprovedForAll \<and> \<not> isIndividuallyApproved then (Inr (Some True), sends)
         else
           (case performAutomaticApproval env st walletAddress sends of
              (approvalResult, sends') \<Rightarrow>
                if approvalResult then (Inr (Some True), sends') else (Inr None, sends'))))"

definition maxRetries_approval :: nat where
  "maxRetries_approval = 3"

text \<open>
  The \<open>while (attempt < maxRetries)\<close> loop with its outer \<open>catch\<close>. The pauses of two and
  three seconds between attempts take time only and are not represented.
\<close>

function approval_loop ::
  "approval_env \<Rightarrow> service \<Rightarrow> string \<Rightarrow> string \<Rightarrow> nat \<Rightarrow> nat \<Rightarrow> bool \<times> nat" where
  "approval_loop env st walletAddress tokenId attempt sends =
     (if attempt < maxRetries_approval then
        (case approval_try_block env st walletAddress tokenId attempt sends of
           (Inr (Some b), sends') \<Rightarrow> (b, sends')
         | (Inr None, sends') \<Rightarrow> approval_loop env st walletAddress tokenId (Suc attempt) sends'
         | (Inl e, sends') \<Rightarrow>
             if message e \<noteq> [] \<and>
                (str_includes (message e) ''User denied'' \<or> str_includes (message e) ''rejected'')
             then (False, sends')
             else if message e \<noteq> [] \<and> str_includes (message e) ''already approved''
             then (True, sends')
             else approval_loop env st walletAddress tokenId (Suc attempt) sends')
      else (False, sends))"
  by pat_completeness auto
termination
  by (relation "measure (\<lambda>(env, st, w, t, attempt, sends). maxRetries_approval - attempt)") auto

declare approval_loop.simps [simp del]

text \<open>
  \<open>checkAndHandleApproval\<close>: the ownership validation (whose failures are rethrown as
  \<open>Contract validation failed\<close>), then the loop. The result is the thrown error or the
  returned flag, together with the number of approval transactions requested.
\<close>

definition checkAndHandleApproval ::
  "approval_env \<Rightarrow> service \<Rightarrow> string \<Rightarrow> string \<Rightarrow> (error + bool) \<times> nat" where
  "checkAndHandleApproval env st walletAddress tokenId =
     (let validation =
        (case retryRPCCall (readOnlyWeb3 st)
                (\<lambda>_. contract_call (readOnlyNftContract st) (ownerOf_read env tokenId)) 2 of
           Inl e \<Rightarrow> Inl e
         | Inr owner \<Rightarrow>
             if toLowerCase owner \<noteq> toLowerCase walletAddress
             then Inl (Error (''Token '' @ tokenId @ '' is owned by '' @ owner
                    @ '', not by the connected wallet '' @ walletAddress
                    @ ''. Please connect the correct wallet or select an NFT you own.''))
             else Inr ())
      in case validation of
           Inl e \<Rightarrow> (Inl (Error (''Contract validation failed: '' @ message e)), 0)
         | Inr _ \<Rightarrow>
             (case approval_loop env st walletAddress tokenId 0 0 of
                (b, sends) \<Rightarrow> (Inr b, sends)))"

section \<open>On-chain staking: the write and its recovery (stakeNFTOnChain)\<close>

record chain_tx =
  tx_from :: "string option"
  tx_to :: "string option"
  tx_hash :: string

text \<open>
  A receipt: \<open>receipt_ok\<close> is the source's test that \<open>status\<close> is truthy and not \<open>'0x0'\<close>.
\<close>

record tx_receipt =
  receipt_ok :: bool
  receipt_hash :: string

text \<open>
  The chain and the wallet as \<open>stakeNFTOnChain\<close> sees them: what each read or send answers
  when it is made on an assigned handle. \<open>staked_and_owner_checks\<close> is the outcome of the
  already-staked check and the ownership check that follow the initialisation, and
  \<open>requirement_checks\<close> that of \<open>validateStakingRequirements\<close> and \<open>validateContractState\<close>
  (the error thrown, if any); gas estimation cannot throw. Reads and sends inside the
  transaction loop are indexed by the loop's \<open>attempt\<close> (1 or 2); \<open>getTransactionReceipt h k\<close>
  is the \<open>k\<close>-th poll for hash \<open>h\<close>, and \<open>receipt_polls\<close> is the number of polls that fit into
  the 60 second timeout (each unsuccessful poll is followed by a pause of two seconds). All
  reads concern the token being staked.
\<close>

record stake_env =
  approval :: approval_env
  staked_and_owner_checks :: "error option"
  requirement_checks :: "error option"
  pre_ownerOf :: "nat \<Rightarrow> error + string"
  pre_isApprovedForAll :: "nat \<Rightarrow> error + bool"
  pre_getApproved :: "nat \<Rightarrow> error + string"
  sendTransaction :: "nat \<Rightarrow> error + string"
  stake_send :: "nat \<Rightarrow> error + string"
  getBlockNumber :: "nat \<Rightarrow> error + nat"
  getBlock :: "nat \<Rightarrow> int \<Rightarrow> error + chain_tx list"
  recovery_ownerOf :: "nat \<Rightarrow> error + string"
  getTransactionReceipt :: "string \<Rightarrow> nat \<Rightarrow> error + tx_receipt option"
  receipt_polls :: nat

definition BLOCK_EXPLORER :: string where
  "BLOCK_EXPLORER = ''https://amoy.polygonscan.com/''"


text \<open>
  The final validation made inside each attempt, just before the write. An approval
  requested here is the one the wallet is asked for in this attempt.
\<close>

definition pre_transaction_validation ::
  "stake_env \<Rightarrow> service \<Rightarrow> nat \<Rightarrow> nat \<Rightarrow> error + unit" where
  "pre_transaction_validation env st numericTokenId attempt =
     (case contract_call (readOnlyNftContract st) (pre_ownerOf env attempt) of
        Inl e \<Rightarrow> Inl e
      | Inr currentOwner \<Rightarrow>
          (case userAccount st of
             Account user \<Rightarrow>
               if toLowerCase currentOwner \<noteq> toLowerCase user then
                 (if toLowerCase currentOwner = toLowerCase (STAKING_CONTRACT (approval env))
                  then Inl (Error (''Token #'' @ toString numericTokenId
                          @ '' is already staked by another user. The NFT is currently locked in the staking contract.''))
                  else Inl (Error (''NFT ownership changed! Current owner: '' @ currentOwner
                          @ '', Expected: '' @ user)))
               else
                 (case contract_call (readOnlyNftContract st) (pre_isApprovedForAll env attempt) of
                    Inl e \<Rightarrow> Inl e
                  | Inr isApproved \<Rightarrow>
                      if \<not> isApproved then
                        (case contract_call (readOnlyNftContract st) (pre_getApproved env attempt) of
                           Inl e \<Rightarrow> Inl e
                         | Inr approvedAddress \<Rightarrow>
                             if toLowerCase approvedAddress
                                  \<noteq> toLowerCase (STAKING_CONTRACT (approval env))
                             then
                               (if \<not> fst (performAutomaticApproval (approval env) st user attempt)
                                then Inl (Error ''NFT approval was revoked or expired. Please re-approve the NFT for staking.'')
                                else Inr ())
                             else Inr ())
                      else Inr ())
           | a \<Rightarrow> Inl (null_toLowerCase a)))"

text \<open>
  Strategy 1 of the recovery: look through the latest block and its two predecessors for a
  transaction from the user's account to the staking contract, and take its hash. The
  comparison uses optional chaining on both sides, so an absent \<open>from\<close> equals an absent
  account. The recovery is entered only after a call on \<open>this.stakingContract\<close> has raised a
  decode error, and the scan only after \<open>readOnlyWeb3\<close> has answered the block number, so both
  handles are assigned here.
\<close>

definition tx_matches :: "stake_env \<Rightarrow> service \<Rightarrow> chain_tx \<Rightarrow> bool" where
  "tx_matches env st tx =
     (map_option toLowerCase (tx_from tx)
        = (case userAccount st of Account user \<Rightarrow> Some (toLowerCase user) | _ \<Rightarrow> None)
      \<and> map_option toLowerCase (tx_to tx) = Some (toLowerCase (STAKING_CONTRACT (approval env))))"

fun scan_recent_blocks ::
  "stake_env \<Rightarrow> service \<Rightarrow> nat \<Rightarrow> nat \<Rightarrow> nat list \<Rightarrow> error + string option" where
  "scan_recent_blocks env st attempt latestBlock [] = Inr None"
| "scan_recent_blocks env st attempt latestBlock (blockOffset # rest) =
     (case getBlock env attempt (int latestBlock - int blockOffset) of
        Inl e \<Rightarrow> Inl e
      | Inr transactions \<Rightarrow>
          (case find (tx_matches env st) transactions of
             Some recentTx \<Rightarrow> Inr (Some (tx_hash recentTx))
           | None \<Rightarrow> scan_recent_blocks env st attempt latestBlock rest))"

text \<open>
  The recovery after a decode error: the block scan, then (when no hash was found, or the
  hash found is the empty string) the ownership read. Whatever goes wrong inside is
  replaced by the original \<open>contractError\<close>.
\<close>

definition recover_from_decode_error ::
  "stake_env \<Rightarrow> service \<Rightarrow> nat \<Rightarrow> error \<Rightarrow> error + string" where
  "recover_from_decode_error env st attempt contractError =
     (let r =
        (case web3_call (readOnlyWeb3 st) (getBlockNumber env attempt) of
           Inl e \<Rightarrow> Inl e
         | Inr latestBlock \<Rightarrow>
             (case scan_recent_blocks env st attempt latestBlock [0, 1, 2] of
                Inl e \<Rightarrow> Inl e
              | Inr foundTxHash \<Rightarrow>
                  if foundTxHash = None \<or> foundTxHash = Some [] then
                    (case contract_call (readOnlyNftContract st) (recovery_ownerOf env attempt) of
                       Inl e \<Rightarrow> Inl e
                     | Inr currentOwner \<Rightarrow>
                         if toLowerCase currentOwner = toLowerCase (STAKING_CONTRACT (approval env))
                         then Inr ''success_via_ownership_check''
                         else Inl contractError)
                  else Inr (the foundTxHash)))
      in case r of Inl recoveryError \<Rightarrow> Inl contractError | Inr h \<Rightarrow> Inr h)"

definition is_decode_error :: "error \<Rightarrow> bool" where
  "is_decode_error e =
     (message e \<noteq> [] \<and>
      (str_includes (message e) ''Parameter decoding error''
       \<or> str_includes (message e) ''ABI decoding''
       \<or> str_includes (message e) ''decode''))"

text \<open>
  The write: the raw transaction (encoded through \<open>this.stakingContract\<close>, sent through
  \<open>this.web3\<close>), on failure the typed contract call, on a decode error the recovery.
\<close>

definition send_stake :: "stake_env \<Rightarrow> service \<Rightarrow> nat \<Rightarrow> error + string" where
  "send_stake env st attempt =
     (case contract_call (stakingContract st) (web3_call (web3 st) (sendTransaction env attempt)) of
        Inr h \<Rightarrow> Inr h
      | Inl rawError \<Rightarrow>
          (case contract_call (stakingContract st) (stake_send env attempt) of
             Inr h \<Rightarrow> Inr h
           | Inl contractError \<Rightarrow>
               if is_decode_error contractError
               then recover_from_decode_error env st attempt contractError
               else Inl contractError))"

definition maxRetries_stake :: nat where
  "maxRetries_stake = 2"

definition stake_attempt :: "stake_env \<Rightarrow> service \<Rightarrow> nat \<Rightarrow> nat \<Rightarrow> error + string" where
  "stake_attempt env st numericTokenId attempt =
     (case pre_transaction_validation env st numericTokenId attempt of
        Inl e \<Rightarrow> Inl e
      | Inr _ \<Rightarrow> send_stake env st attempt)"

text \<open>
  The \<open>for (attempt = 1; attempt <= maxRetries; attempt++)\<close> loop: a successful attempt
  leaves the loop, a failed last attempt rethrows. Falling out of the loop without a result
  would make \<open>result.transactionHash\<close> throw.
\<close>

function stake_attempts :: "stake_env \<Rightarrow> service \<Rightarrow> nat \<Rightarrow> nat \<Rightarrow> error + string" where
  "stake_attempts env st numericTokenId attempt =
     (if attempt \<le> maxRetries_stake then
        (case stake_attempt env st numericTokenId attempt of
           Inr h \<Rightarrow> Inr h
         | Inl txError \<Rightarrow>
             if attempt = maxRetries_stake then Inl txError
             else stake_attempts env st numericTokenId (Suc attempt))
      else Inl (Error ''Cannot read properties of undefined (reading 'transactionHash')''))"
  by pat_completeness auto
termination
  by (relation "measure (\<lambda>(env, st, t, attempt). Suc maxRetries_stake - attempt)") auto

declare stake_attempts.simps [simp del]

text \<open>
  \<open>waitForTransactionReceiptSafe\<close>: poll until a receipt is there or the time is up. A poll
  that throws is followed by the same pause as a poll without a receipt.
\<close>

fun waitForTransactionReceiptSafe ::
  "(nat \<Rightarrow> error + tx_receipt option) \<Rightarrow> string \<Rightarrow> nat \<Rightarrow> nat \<Rightarrow> error + tx_receipt" where
  "waitForTransactionReceiptSafe poll txHash 0 k =
     Inl (Error (''Transaction receipt timeout after 60000ms for tx: '' @ txHash))"
| "waitForTransactionReceiptSafe poll txHash (Suc n) k =
     (case poll k of
        Inr (Some receipt) \<Rightarrow> Inr receipt
      | Inr None \<Rightarrow> waitForTransactionReceiptSafe poll txHash n (Suc k)
      | Inl e \<Rightarrow> waitForTransactionReceiptSafe poll txHash n (Suc k))"


text \<open>
  The part of \<open>stakeNFTOnChain\<close> that starts with the parsing of the token id: the
  transaction loop, the wait for the receipt and the test of its status. \<open>Inr h\<close> is the
  success response (\<open>success: true\<close> with transaction hash \<open>h\<close>), \<open>Inl e\<close> is the error thrown.
  After a successful receipt the source records the stake in the database; that step
  catches its own errors and does not change the response.
\<close>

definition stake_and_confirm :: "stake_env \<Rightarrow> service \<Rightarrow> string \<Rightarrow> error + string" where
  "stake_and_confirm env st tokenId =
     (case parseInt tokenId of
        None \<Rightarrow> Inl (Error (''Invalid token ID: '' @ tokenId @ ''. Must be a positive integer.''))
      | Some numericTokenId \<Rightarrow>
          if numericTokenId < 0
          then Inl (Error (''Invalid token ID: '' @ tokenId @ ''. Must be a positive integer.''))
          else
            (case stake_attempts env st (nat numericTokenId) 1 of
               Inl e \<Rightarrow> Inl e
             | Inr txHash \<Rightarrow>
                 (case waitForTransactionReceiptSafe
                         (\<lambda>k. web3_call (readOnlyWeb3 st) (getTransactionReceipt env txHash k))
                         txHash (receipt_polls env) 0 of
                    Inl e \<Rightarrow> Inl e
                  | Inr receipt \<Rightarrow>
                      if \<not> receipt_ok receipt
                      then Inl (Error (''Transaction failed on blockchain. Check explorer: ''
                              @ BLOCK_EXPLORER @ ''/tx/'' @ receipt_hash receipt))
                      else Inr (receipt_hash receipt))))"



section \<open>Reconciliation after an on-chain unstake\<close>

datatype record_status = Staked | Unstaked

text \<open>
  Modelled from the spec: the \<open>StakeRecord\<close> row of the staking service, whose source file is
  missing from the repository's sources. It has the attributes the specification gives it:
  the stake-time fields (\<open>nftRef\<close>, \<open>walletAddress\<close>, \<open>rarity\<close>, \<open>dailyReward\<close>, \<open>stakedAt\<close>,
  \<open>source\<close>) and the unstake-status field \<open>unstakedAt\<close>.
\<close>

record StakeRecord =
  nftRef :: string
  walletAddress :: string
  stake_rarity :: string
  stake_dailyReward :: real
  stakedAt :: nat
  unstakedAt :: "nat option"
  source :: staking_source

definition is_live_record :: "string \<Rightarrow> string \<Rightarrow> StakeRecord \<Rightarrow> bool" where
  "is_live_record wallet nftId r =
     (nftRef r = nftId \<and> toLowerCase (walletAddress r) = toLowerCase wallet \<and> unstakedAt r = None)"

text \<open>
  Modelled from the spec: \<open>EnhancedStakingService.unstakeNFT\<close>, which
  \<open>updateOffchainStakingRecord\<close> calls and whose source file is missing from the
  repository's sources. The specification's \<open>reconcileUnstake(wallet, asset)\<close> "marks the
  \<open>StakeRecord.unstakedAt\<close>, never deletes". The call reports \<open>success: false\<close> when the wallet
  has no live record under the given id, and throws when the database request for that id
  fails (\<open>request_fails\<close>).
\<close>

definition unstakeNFT ::
  "(string \<Rightarrow> bool) \<Rightarrow> nat \<Rightarrow> string \<Rightarrow> string \<Rightarrow> StakeRecord list
     \<Rightarrow> (error + bool) \<times> StakeRecord list" where
  "unstakeNFT request_fails now wallet nftId records =
     (if request_fails nftId then (Inl (Error ''staking service request failed''), records)
      else if list_ex (is_live_record wallet nftId) records
      then (Inr True,
            map (\<lambda>r. if is_live_record wallet nftId r then r\<lparr>unstakedAt := Some now\<rparr> else r)
              records)
      else (Inr False, records))"

text \<open>
  The loop of \<open>updateOffchainStakingRecord\<close> over the candidate ids: for status \<open>unstaked\<close>
  each id is tried until one call reports success; a call that throws is skipped. For
  status \<open>staked\<close> nothing is done. The first component is the flag \<open>updated\<close>.
\<close>

fun try_possibleIds ::
  "(string \<Rightarrow> bool) \<Rightarrow> nat \<Rightarrow> string \<Rightarrow> record_status \<Rightarrow> string list \<Rightarrow> StakeRecord list
     \<Rightarrow> bool \<times> StakeRecord list" where
  "try_possibleIds request_fails now wallet st [] records = (False, records)"
| "try_possibleIds request_fails now wallet st (i # ids) records =
     (if st = Unstaked then
        (case unstakeNFT request_fails now wallet i records of
           (Inr True, records') \<Rightarrow> (True, records')
         | (Inr False, records') \<Rightarrow> try_possibleIds request_fails now wallet st ids records'
         | (Inl idError, records') \<Rightarrow> try_possibleIds request_fails now wallet st ids records')
      else try_possibleIds request_fails now wallet st ids records)"

definition possibleIds :: "string \<Rightarrow> string list" where
  "possibleIds tokenId = [''onchain_'' @ tokenId, ''blockchain_'' @ tokenId, tokenId, tokenId]"

definition updateOffchainStakingRecord ::
  "(string \<Rightarrow> bool) \<Rightarrow> nat \<Rightarrow> string \<Rightarrow> string \<Rightarrow> record_status \<Rightarrow> StakeRecord list
     \<Rightarrow> StakeRecord list" where
  "updateOffchainStakingRecord request_fails now wallet tokenId st records =
     snd (try_possibleIds request_fails now wallet st (possibleIds tokenId) records)"

text \<open>
  The end of \<open>unstakeNFTOnChain\<close>, from the receipt on: a failed receipt throws (and the
  function's \<open>catch\<close> turns that into a failure response) without touching the records; a
  confirmed one updates the staking record and reports success.
\<close>

definition unstakeNFTOnChain_confirm ::
  "(string \<Rightarrow> bool) \<Rightarrow> nat \<Rightarrow> string \<Rightarrow> string \<Rightarrow> tx_receipt \<Rightarrow> StakeRecord list
     \<Rightarrow> bool \<times> StakeRecord list" where
  "unstakeNFTOnChain_confirm request_fails now wallet tokenId receipt records =
     (if \<not> receipt_ok receipt then (False, records)
      else (True, updateOffchainStakingRecord request_fails now wallet tokenId Unstaked records))"

definition stake_time_fields ::
  "StakeRecord \<Rightarrow> string \<times> string \<times> string \<times> real \<times> nat \<times> staking_source" where
  "stake_time_fields r =
     (nftRef r, walletAddress r, stake_rarity r, stake_dailyReward r, stakedAt r, source r)"

definition example_records :: "StakeRecord list" where
  "example_records =
     [\<lparr>nftRef = ''onchain_42'', walletAddress = ''0xAA'', stake_rarity = ''Rare'',
       stake_dailyReward = 0.4, stakedAt = 1000, unstakedAt = None, source = SrcOnchain\<rparr>,
      \<lparr>nftRef = ''offchain_7'', walletAddress = ''0xAA'', stake_rarity = ''Common'',
       stake_dailyReward = 0.1, stakedAt = 900, unstakedAt = None, source = SrcOffchain\<rparr>]"

section \<open>Burn engine (EnhancedHybridBurnService)\<close>

record NFTWithStatus =
  b_id :: string
  b_rarity :: string
  b_status :: store
  b_tokenId :: "string option"
  b_stakingStatus :: "record_status option"
  b_isStaked :: "bool option"

text \<open>
  A burn rule, as far as this service reads it: \<open>minRarity\<close>, \<open>requiredAmount\<close> and
  \<open>resultingNFT.rarity\<close>. The rule table itself belongs to \<open>OptimizedCIDPoolBurnService\<close> and
  is a parameter here.
\<close>

record BurnRule =
  minRarity :: string
  requiredAmount :: nat
  resultingRarity :: string

record BurnGroup =
  offchainNFTs :: "NFTWithStatus list"
  onchainNFTs :: "NFTWithStatus list"
  group_rarity :: string
  totalCount :: nat

datatype burn_strategy = pure_offchain | pure_onchain | mixed

record selection_analysis =
  burnGroups :: "BurnGroup list"
  burnStrategy :: burn_strategy
  isValid :: bool
  applicableRule :: "BurnRule option"

definition add_to_group :: "NFTWithStatus \<Rightarrow> BurnGroup \<Rightarrow> BurnGroup" where
  "add_to_group nft g =
     (if b_status nft = Offchain
      then g\<lparr>offchainNFTs := offchainNFTs g @ [nft], totalCount := Suc (totalCount g)\<rparr>
      else g\<lparr>onchainNFTs := onchainNFTs g @ [nft], totalCount := Suc (totalCount g)\<rparr>)"

definition new_group :: "string \<Rightarrow> BurnGroup" where
  "new_group r = \<lparr>offchainNFTs = [], onchainNFTs = [], group_rarity = r, totalCount = 0\<rparr>"

text \<open>
  The \<open>forEach\<close> that fills \<open>rarityGroups\<close>, an object used as a dictionary; the association
  list keeps the keys in insertion order. For the two lower-case names that every object
  inherits (\<open>constructor\<close>, \<open>__proto__\<close>) the lookup \<open>rarityGroups[rarity]\<close> is truthy without
  being a group, and the \<open>push\<close> throws.
\<close>

fun group_by_rarity ::
  "NFTWithStatus list \<Rightarrow> (string \<times> BurnGroup) list \<Rightarrow> error + (string \<times> BurnGroup) list" where
  "group_by_rarity [] groups = Inr groups"
| "group_by_rarity (nft # rest) groups =
     (let r = toLowerCase (b_rarity nft) in
      if r = ''constructor'' \<or> r = ''__proto__''
      then Inl (Error ''Cannot read properties of undefined (reading 'push')'')
      else
        group_by_rarity rest
          (case map_of groups r of
             None \<Rightarrow> groups @ [(r, add_to_group nft (new_group r))]
           | Some _ \<Rightarrow> map (\<lambda>(k, g). if k = r then (k, add_to_group nft g) else (k, g)) groups))"

text \<open>
  \<open>Object.values\<close>: keys that are array indices (canonical decimal numerals below
  \<open>2^32 - 1\<close>) come first in ascending order, all other keys follow in insertion order.
\<close>

definition array_index :: "string \<Rightarrow> nat option" where
  "array_index k =
     (case parse_digits digit_val 10 None k of
        None \<Rightarrow> None
      | Some n \<Rightarrow> if toString n = k \<and> n < 4294967295 then Some n else None)"

definition object_values :: "(string \<times> 'a) list \<Rightarrow> 'a list" where
  "object_values kvs =
     map snd (sort_key (\<lambda>(k, v). the (array_index k)) (filter (\<lambda>(k, v). array_index k \<noteq> None) kvs))
     @ map snd (filter (\<lambda>(k, v). array_index k = None) kvs)"

fun find_applicable_rule :: "BurnRule list \<Rightarrow> BurnGroup list \<Rightarrow> BurnRule option" where
  "find_applicable_rule rules [] = None"
| "find_applicable_rule rules (g # gs) =
     (case find (\<lambda>r. toLowerCase (minRarity r) = group_rarity g
                    \<and> requiredAmount r = totalCount g) rules of
        Some rule \<Rightarrow> Some rule
      | None \<Rightarrow> find_applicable_rule rules gs)"

definition analyzeNFTSelection :: "BurnRule list \<Rightarrow> NFTWithStatus list \<Rightarrow> error + selection_analysis" where
  "analyzeNFTSelection burnRules nfts =
     (case group_by_rarity nfts [] of
        Inl e \<Rightarrow> Inl e
      | Inr rarityGroups \<Rightarrow>
          (let groups = object_values rarityGroups;
               hasOffchain = list_ex (\<lambda>nft. b_status nft = Offchain) nfts;
               hasOnchain = list_ex (\<lambda>nft. b_status nft = Onchain) nfts;
               strategy = (if hasOffchain \<and> hasOnchain then mixed
                           else if hasOnchain \<and> \<not> hasOffchain then pure_onchain
                           else pure_offchain);
               rule = find_applicable_rule burnRules groups
           in Inr \<lparr>burnGroups = groups, burnStrategy = strategy,
                   isValid = (rule \<noteq> None), applicableRule = rule\<rparr>))"

subsection \<open>The chain side of a burn\<close>

text \<open>
  The wallet and chain as \<open>burnOnchainNFTs\<close> sees them. A token id is the result of
  \<open>parseInt\<close> (\<open>None\<close> is \<open>NaN\<close>). The chain state threaded through is the list of token ids
  whose transfer to the burn address was sent successfully.
\<close>

record burn_chain =
  contracts_ready :: bool
  initializeContracts_burn :: "error option"
  estimateGas_transferFrom :: "int option \<Rightarrow> error + nat"
  burn_getGasPrice :: "error + nat"
  transferFrom_send :: "int option \<Rightarrow> error + string"

definition show_number :: "int option \<Rightarrow> string" where
  "show_number n =
     (case n of
        None \<Rightarrow> ''NaN''
      | Some i \<Rightarrow> if i < 0 then ''-'' @ toString (nat (- i)) else toString (nat i))"

definition token_of :: "NFTWithStatus \<Rightarrow> int option" where
  "token_of nft =
     parseInt (case b_tokenId nft of None \<Rightarrow> b_id nft | Some t \<Rightarrow> if t = [] then b_id nft else t)"

fun burn_each ::
  "burn_chain \<Rightarrow> NFTWithStatus list \<Rightarrow> string list \<Rightarrow> int option list
     \<Rightarrow> (error + string list) \<times> int option list" where
  "burn_each chain [] burnHashes burned = (Inr burnHashes, burned)"
| "burn_each chain (nft # rest) burnHashes burned =
     (let tokenId = token_of nft in
      if str_includes (b_id nft) ''staked_'' \<or> b_stakingStatus nft = Some Staked
         \<or> b_isStaked nft = Some True
      then (Inl (Error (''NFT '' @ show_number tokenId
              @ '' is currently staked and cannot be burned. Please unstake it first.'')), burned)
      else
        (case estimateGas_transferFrom chain tokenId of
           Inl e \<Rightarrow> (Inl e, burned)
         | Inr gasLimit \<Rightarrow>
             (case burn_getGasPrice chain of
                Inl e \<Rightarrow> (Inl e, burned)
              | Inr gasPrice \<Rightarrow>
                  (case transferFrom_send chain tokenId of
                     Inl e \<Rightarrow> (Inl e, burned)
                   | Inr h \<Rightarrow> burn_each chain rest (burnHashes @ [h]) (burned @ [tokenId])))))"

definition burnOnchainNFTs ::
  "burn_chain \<Rightarrow> NFTWithStatus list \<Rightarrow> int option list \<Rightarrow> (error + string list) \<times> int option list" where
  "burnOnchainNFTs chain onchain burned =
     (case (if \<not> contracts_ready chain then initializeContracts_burn chain else None) of
        Some e \<Rightarrow> (Inl e, burned)
      | None \<Rightarrow> burn_each chain onchain [] burned)"

subsection \<open>The database side of a burn\<close>

datatype burn_type = BurnOffchain | BurnOnchain | BurnHybrid

record pool_row =
  pool_id :: nat
  pool_rarity :: string
  pool_cid :: string
  is_distributed :: bool
  distributed_at :: "nat option"
  distributed_to_wallet :: "string option"

record distribution_row =
  d_nft_id :: string
  d_wallet_address :: string
  d_rarity :: string
  d_cid :: string
  d_distributed_at :: nat

record burn_transaction_row =
  bt_wallet_address :: string
  burned_nft_ids :: "string list"
  result_rarity :: string
  burn_type :: burn_type
  transaction_hash :: "string option"
  created_at :: nat
  onchain_nfts :: nat
  offchain_nfts :: nat

record database =
  nft_cid_pools :: "pool_row list"
  nft_cid_distribution_log :: "distribution_row list"
  burn_transactions :: "burn_transaction_row list"

text \<open>
  Which database requests of a burn come back with an error (with the error's message
  where the source uses it).
\<close>

record db_faults =
  select_pool_fails :: bool
  insert_log_error :: "string option"
  update_pool_fails :: bool
  delete_error :: "string option"
  insert_burn_transaction_fails :: bool

definition no_faults :: db_faults where
  "no_faults =
     \<lparr>select_pool_fails = False, insert_log_error = None, update_pool_fails = False,
      delete_error = None, insert_burn_transaction_fails = False\<rparr>"

text \<open>
  The result asset. Its image and metadata URI, which the source derives from the pool row
  through the IPFS configuration, are not represented.
\<close>

record NFTData =
  nd_id :: string
  nd_name :: string
  nd_rarity :: string
  nd_wallet_address :: string
  nd_ipfs_hash :: string

record BurnResult =
  success :: bool
  resultNFT :: "NFTData option"
  error_message :: "string option"

definition burnOffchainNFTsInDatabase ::
  "db_faults \<Rightarrow> string \<Rightarrow> string list \<Rightarrow> database \<Rightarrow> (error + unit) \<times> database" where
  "burnOffchainNFTsInDatabase faults wallet nftIds db =
     (case delete_error faults of
        Some m \<Rightarrow> (Inl (Error (''Failed to burn offchain NFTs: '' @ m)), db)
      | None \<Rightarrow>
          (Inr (),
           db\<lparr>nft_cid_distribution_log :=
                filter (\<lambda>row. \<not> (d_wallet_address row = toLowerCase wallet
                                  \<and> d_nft_id row \<in> set nftIds))
                  (nft_cid_distribution_log db)\<rparr>))"

text \<open>
  \<open>getResultNFTFromOffchainPool\<close> in its two database phases. First the select: one row of
  the requested rarity with \<open>is_distributed = false\<close> (the first such row stands for the row
  the database returns under \<open>limit(1)\<close>).
\<close>

definition pool_select :: "db_faults \<Rightarrow> string \<Rightarrow> database \<Rightarrow> error + pool_row" where
  "pool_select faults rar db =
     (if select_pool_fails faults
      then Inl (Error (''No available '' @ rar @ '' NFT found in CID pool''))
      else
        (case find (\<lambda>p. pool_rarity p = toLowerCase rar \<and> \<not> is_distributed p)
                (nft_cid_pools db) of
           None \<Rightarrow> Inl (Error (''No available '' @ rar @ '' NFT found in CID pool''))
         | Some cidPoolNFT \<Rightarrow> Inr cidPoolNFT))"

text \<open>
  Then, for the row selected: the insert into the user's collection and the update that
  marks the pool row, addressed by its id alone. A failed insert throws; a failed update is
  only logged. \<open>fresh\<close> is the identifier produced by \<open>uuidv4()\<close>. (Between select and
  insert the source also calls the stored procedure \<open>sync_user_nft_collection\<close>, whose error
  is only logged; it does not touch the three tables modelled here.)
\<close>

definition pool_claim ::
  "db_faults \<Rightarrow> string \<Rightarrow> string \<Rightarrow> string \<Rightarrow> nat \<Rightarrow> pool_row \<Rightarrow> database
     \<Rightarrow> (error + NFTData) \<times> database" where
  "pool_claim faults wallet rar fresh now cidPoolNFT db =
     (let result =
            \<lparr>nd_id = fresh,
             nd_name = ''NEFTIT '' @ toUpperCase (charAt0 rar) @ slice1 rar @ '' NFT'',
             nd_rarity = rar,
             nd_wallet_address = wallet,
             nd_ipfs_hash = pool_cid cidPoolNFT\<rparr>
      in case insert_log_error faults of
           Some m \<Rightarrow> (Inl (Error (''Failed to add result NFT: '' @ m)), db)
         | None \<Rightarrow>
             (let db1 =
                    db\<lparr>nft_cid_distribution_log :=
                         nft_cid_distribution_log db
                         @ [\<lparr>d_nft_id = fresh, d_wallet_address = toLowerCase wallet,
                              d_rarity = rar, d_cid = pool_cid cidPoolNFT,
                              d_distributed_at = now\<rparr>]\<rparr>;
                  db2 =
                    (if update_pool_fails faults then db1
                     else
                       db1\<lparr>nft_cid_pools :=
                             map (\<lambda>p. if pool_id p = pool_id cidPoolNFT
                                       then p\<lparr>is_distributed := True,
                                              distributed_at := Some now,
                                              distributed_to_wallet := Some (toLowerCase wallet)\<rparr>
                                       else p)
                               (nft_cid_pools db1)\<rparr>)
              in (Inr result, db2)))"

definition getResultNFTFromOffchainPool ::
  "db_faults \<Rightarrow> string \<Rightarrow> string \<Rightarrow> string \<Rightarrow> nat \<Rightarrow> database \<Rightarrow> (error + NFTData) \<times> database" where
  "getResultNFTFromOffchainPool faults wallet rar fresh now db =
     (case pool_select faults rar db of
        Inl e \<Rightarrow> (Inl e, db)
      | Inr cidPoolNFT \<Rightarrow> pool_claim faults wallet rar fresh now cidPoolNFT db)"

definition logHybridBurnTransaction ::
  "db_faults \<Rightarrow> string \<Rightarrow> burn_type \<Rightarrow> string option \<Rightarrow> string \<Rightarrow> nat \<Rightarrow> NFTWithStatus list
     \<Rightarrow> database \<Rightarrow> database" where
  "logHybridBurnTransaction faults wallet burnType hash resultRarity now burnedNFTs db =
     (if insert_burn_transaction_fails faults then db
      else
        db\<lparr>burn_transactions :=
             burn_transactions db
             @ [\<lparr>bt_wallet_address = toLowerCase wallet,
                  burned_nft_ids = map b_id burnedNFTs,
                  result_rarity = resultRarity,
                  burn_type = burnType,
                  transaction_hash = hash,
                  created_at = now,
                  onchain_nfts = length (filter (\<lambda>n. b_status n = Onchain) burnedNFTs),
                  offchain_nfts = length (filter (\<lambda>n. b_status n = Offchain) burnedNFTs)\<rparr>]\<rparr>)"

subsection \<open>executeSmartHybridBurn\<close>

text \<open>
  The parts of the surroundings a burn depends on: the rule table and the pure off-chain
  burn of \<open>OptimizedCIDPoolBurnService\<close> (to which the \<open>pure_offchain\<close> strategy delegates),
  the chain, the database faults, the fresh identifier and the clock.
\<close>

record burn_env =
  burn_rules :: "BurnRule list"
  burnNFTsOffChain :: "string \<Rightarrow> string list \<Rightarrow> database \<Rightarrow> (error + BurnResult) \<times> database"
  chain :: burn_chain
  faults :: db_faults
  fresh_id :: string
  clock :: nat

definition first_hash :: "string list \<Rightarrow> string option" where
  "first_hash hs = (case hs of [] \<Rightarrow> None | h # _ \<Rightarrow> if h = [] then None else Some h)"

text \<open>
  The tail of the \<open>try\<close> block after the \<open>switch\<close>: the audit row and the success response.
\<close>

definition finish_burn ::
  "burn_env \<Rightarrow> string \<Rightarrow> NFTWithStatus list \<Rightarrow> burn_strategy \<Rightarrow> BurnRule \<Rightarrow> string list
     \<Rightarrow> NFTData \<Rightarrow> database \<Rightarrow> BurnResult \<times> database" where
  "finish_burn env wallet nfts strategy rule onchainBurnHashes res db =
     (let burnType = (if strategy = pure_onchain then BurnOnchain else BurnHybrid)
      in (\<lparr>success = True, resultNFT = Some res, error_message = None\<rparr>,
          logHybridBurnTransaction (faults env) wallet burnType (first_hash onchainBurnHashes)
            (resultingRarity rule) (clock env) nfts db))"

text \<open>
  The \<open>try\<close> block: the state is the list of burned token ids and the database; \<open>Inl e\<close> is
  an exception on its way to the \<open>catch\<close>.
\<close>

definition executeSmartHybridBurn_try ::
  "burn_env \<Rightarrow> string \<Rightarrow> NFTWithStatus list \<Rightarrow> int option list \<times> database
     \<Rightarrow> (error + BurnResult) \<times> int option list \<times> database" where
  "executeSmartHybridBurn_try env wallet nfts st =
     (case st of (burned, db) \<Rightarrow>
      (case analyzeNFTSelection (burn_rules env) nfts of
         Inl e \<Rightarrow> (Inl e, burned, db)
       | Inr analysis \<Rightarrow>
           (case applicableRule analysis of
              None \<Rightarrow> (Inl (Error ''Invalid NFT combination for burning''), burned, db)
            | Some rule \<Rightarrow>
                if \<not> isValid analysis
                then (Inl (Error ''Invalid NFT combination for burning''), burned, db)
                else
                  (case burnStrategy analysis of
                     pure_offchain \<Rightarrow>
                       (case burnNFTsOffChain env wallet (map b_id nfts) db of
                          (r, db') \<Rightarrow> (r, burned, db'))
                   | pure_onchain \<Rightarrow>
                       (case burnOnchainNFTs (chain env)
                               (filter (\<lambda>n. b_status n = Onchain) nfts) burned of
                          (Inl e, burned') \<Rightarrow> (Inl e, burned', db)
                        | (Inr hashes, burned') \<Rightarrow>
                            (case getResultNFTFromOffchainPool (faults env) wallet
                                    (resultingRarity rule) (fresh_id env) (clock env) db of
                               (Inl e, db') \<Rightarrow> (Inl e, burned', db')
                             | (Inr res, db') \<Rightarrow>
                                 (case finish_burn env wallet nfts pure_onchain rule hashes res db' of
                                    (r, db'') \<Rightarrow> (Inr r, burned', db''))))
                   | mixed \<Rightarrow>
                       (let onchain = filter (\<lambda>n. b_status n = Onchain) nfts;
                            offchain = filter (\<lambda>n. b_status n = Offchain) nfts
                        in
                        case (if onchain \<noteq> [] then burnOnchainNFTs (chain env) onchain burned
                              else (Inr [], burned)) of
                          (Inl e, burned') \<Rightarrow> (Inl e, burned', db)
                        | (Inr hashes, burned') \<Rightarrow>
                            (case (if offchain \<noteq> []
                                   then burnOffchainNFTsInDatabase (faults env) wallet
                                          (map b_id offchain) db
                                   else (Inr (), db)) of
                               (Inl e, db1) \<Rightarrow> (Inl e, burned', db1)
                             | (Inr _, db1) \<Rightarrow>
                                 (case getResultNFTFromOffchainPool (faults env) wallet
                                         (resultingRarity rule) (fresh_id env) (clock env) db1 of
                                    (Inl e, db2) \<Rightarrow> (Inl e, burned', db2)
                                  | (Inr res, db2) \<Rightarrow>
                                      (case finish_burn env wallet nfts mixed rule hashes res db2 of
                                         (r, db3) \<Rightarrow> (Inr r, burned', db3)))))))))"

definition executeSmartHybridBurn ::
  "burn_env \<Rightarrow> string \<Rightarrow> NFTWithStatus list \<Rightarrow> int option list \<times> database
     \<Rightarrow> BurnResult \<times> int option list \<times> database" where
  "executeSmartHybridBurn env wallet nfts st =
     (case executeSmartHybridBurn_try env wallet nfts st of
        (Inl e, st') \<Rightarrow>
          (\<lparr>success = False, resultNFT = None, error_message = Some (message e)\<rparr>, st')
      | (Inr r, st') \<Rightarrow> (r, st'))"

subsection \<open>A concrete burn: three common assets, two off-chain and one on-chain\<close>

definition common_to_rare :: BurnRule where
  "common_to_rare = \<lparr>minRarity = ''common'', requiredAmount = 3, resultingRarity = ''rare''\<rparr>"

definition off_1 :: NFTWithStatus where
  "off_1 = \<lparr>b_id = ''off_1'', b_rarity = ''Common'', b_status = Offchain, b_tokenId = None,
            b_stakingStatus = None, b_isStaked = None\<rparr>"

definition off_2 :: NFTWithStatus where
  "off_2 = \<lparr>b_id = ''off_2'', b_rarity = ''common'', b_status = Offchain, b_tokenId = None,
            b_stakingStatus = None, b_isStaked = None\<rparr>"

definition on_42 :: NFTWithStatus where
  "on_42 = \<lparr>b_id = ''onchain_42'', b_rarity = ''Common'', b_status = Onchain,
            b_tokenId = Some ''42'', b_stakingStatus = Some Unstaked, b_isStaked = Some False\<rparr>"

definition good_chain :: burn_chain where
  "good_chain =
     \<lparr>contracts_ready = True, initializeContracts_burn = None,
      estimateGas_transferFrom = (\<lambda>t. Inr 60000), burn_getGasPrice = Inr 30,
      transferFrom_send = (\<lambda>t. Inr (''0xburn'' @ show_number t))\<rparr>"

text \<open>A wallet that declines every transfer.\<close>

definition rejecting_chain :: burn_chain where
  "rejecting_chain = good_chain\<lparr>transferFrom_send := (\<lambda>t. Inl (Error ''User denied transaction signature''))\<rparr>"

definition scenario_env :: burn_env where
  "scenario_env =
     \<lparr>burn_rules = [common_to_rare],
      burnNFTsOffChain = (\<lambda>w ids db. (Inl (Error ''pure off-chain burn is not part of this scenario''), db)),
      chain = good_chain, faults = no_faults, fresh_id = ''uuid-1'', clock = 5000\<rparr>"

definition pool_1 :: pool_row where
  "pool_1 = \<lparr>pool_id = 1, pool_rarity = ''common'', pool_cid = ''cidC'', is_distributed = False,
             distributed_at = None, distributed_to_wallet = None\<rparr>"

definition pool_2 :: pool_row where
  "pool_2 = \<lparr>pool_id = 2, pool_rarity = ''rare'', pool_cid = ''cidR1'', is_distributed = False,
             distributed_at = None, distributed_to_wallet = None\<rparr>"

definition pool_3 :: pool_row where
  "pool_3 = \<lparr>pool_id = 3, pool_rarity = ''rare'', pool_cid = ''cidR2'', is_distributed = False,
             distributed_at = None, distributed_to_wallet = None\<rparr>"

definition owned :: "string \<Rightarrow> string \<Rightarrow> distribution_row" where
  "owned w i = \<lparr>d_nft_id = i, d_wallet_address = w, d_rarity = ''common'', d_cid = ''cid_'' @ i,
               d_distributed_at = 100\<rparr>"

definition scenario_db :: database where
  "scenario_db =
     \<lparr>nft_cid_pools = [pool_1, pool_2, pool_3],
      nft_cid_distribution_log = [owned ''0xaa'' ''off_1'', owned ''0xbb'' ''off_9'', owned ''0xaa'' ''off_2''],
      burn_transactions = []\<rparr>"

subsection \<open>Two burns whose pool allocations interleave\<close>

text \<open>
  Burn A (wallet \<open>0xaa\<close>) and burn B (wallet \<open>0xbb\<close>) each need one \<open>rare\<close> result asset and the
  pool \<open>race_db\<close> holds exactly two. Every database request is awaited, so the requests of
  two burns running at the same time may alternate. In this schedule both selects are
  answered before either burn writes: A selects, B selects, A inserts and updates, B inserts
  and updates.
\<close>

definition race_db :: database where
  "race_db = \<lparr>nft_cid_pools = [pool_2, pool_3], nft_cid_distribution_log = [], burn_transactions = []\<rparr>"

definition race_select_A :: "error + pool_row" where
  "race_select_A = pool_select no_faults ''rare'' race_db"

definition race_select_B :: "error + pool_row" where
  "race_select_B = pool_select no_faults ''rare'' race_db"

definition race_claim_A :: "(error + NFTData) \<times> database" where
  "race_claim_A =
     (case race_select_A of
        Inl e \<Rightarrow> (Inl e, race_db)
      | Inr row \<Rightarrow> pool_claim no_faults ''0xaa'' ''rare'' ''uuid-a'' 10 row race_db)"

definition race_claim_B :: "(error + NFTData) \<times> database" where
  "race_claim_B =
     (case race_select_B of
        Inl e \<Rightarrow> (Inl e, snd race_claim_A)
      | Inr row \<Rightarrow> pool_claim no_faults ''0xbb'' ''rare'' ''uuid-b'' 11 row (snd race_claim_A))"

subsection \<open>Allocations that run one after another\<close>

text \<open>
  A sequence of burns, each given by its wallet, its fresh identifier and its time, whose
  calls of \<open>getResultNFTFromOffchainPool\<close> for the same rarity run to completion one after
  another, each on the database the previous call left. The first component lists, for the
  calls that returned a result asset, the id of the pool entry their select returned.
\<close>

fun allocate_sequentially ::
  "db_faults \<Rightarrow> string \<Rightarrow> (string \<times> string \<times> nat) list \<Rightarrow> database \<Rightarrow> nat list \<times> database" where
  "allocate_sequentially fl rar [] db = ([], db)"
| "allocate_sequentially fl rar ((wallet, fresh, now) # burns) db =
     (case getResultNFTFromOffchainPool fl wallet rar fresh now db of
        (Inl e, db') \<Rightarrow> allocate_sequentially fl rar burns db'
      | (Inr res, db') \<Rightarrow>
          (case pool_select fl rar db of
             Inl e \<Rightarrow> allocate_sequentially fl rar burns db'
           | Inr cidPoolNFT \<Rightarrow>
               (case allocate_sequentially fl rar burns db' of
                  (ids, db'') \<Rightarrow> (pool_id cidPoolNFT # ids, db''))))"

text \<open>The ids of the pool entries of a rarity that are not yet distributed.\<close>

definition available :: "string \<Rightarrow> database \<Rightarrow> nat set" where
  "available rar db =
     set (map pool_id
       (filter (\<lambda>p. pool_rarity p = toLowerCase rar \<and> \<not> is_distributed p) (nft_cid_pools db)))"

section \<open>Properties of the string helpers\<close>

lemma of_char_toUpperCase_char:
  "(of_char (toUpperCase_char c) :: nat) =
     (if 97 \<le> (of_char c :: nat) \<and> (of_char c :: nat) \<le> 122 then of_char c - 32 else of_char c)"
proof -
  have "((of_char c :: nat) - 32) mod 256 = of_char c - 32" if "(of_char c :: nat) \<le> 122"
    using that by (intro mod_less) arith
  then show ?thesis
    by (auto simp add: toUpperCase_char_def Let_def)
qed

lemma of_char_toLowerCase_char:
  "(of_char (toLowerCase_char c) :: nat) =
     (if 65 \<le> (of_char c :: nat) \<and> (of_char c :: nat) \<le> 90 then of_char c + 32 else of_char c)"
proof -
  have "((of_char c :: nat) + 32) mod 256 = of_char c + 32" if "(of_char c :: nat) \<le> 90"
    using that by (intro mod_less) arith
  then show ?thesis
    by (auto simp add: toLowerCase_char_def Let_def)
qed

lemma char_eq_nat: "(c = d) = ((of_char c :: nat) = of_char d)"
  by simp

lemma toUpperCase_char_idem: "toUpperCase_char (toUpperCase_char c) = toUpperCase_char c"
  unfolding char_eq_nat [of "toUpperCase_char (toUpperCase_char c)"] of_char_toUpperCase_char
  by arith

lemma toLowerCase_char_idem: "toLowerCase_char (toLowerCase_char c) = toLowerCase_char c"
  unfolding char_eq_nat [of "toLowerCase_char (toLowerCase_char c)"] of_char_toLowerCase_char
  by arith


lemma toLowerCase_idem: "toLowerCase (toLowerCase s) = toLowerCase s"
  by (simp add: toLowerCase_def toLowerCase_char_idem)


lemma capitalize_idem: "capitalize (capitalize s) = capitalize s"
  by (cases s)
    (simp_all add: capitalize_def charAt0_def slice1_def toLowerCase_def toUpperCase_def
      toUpperCase_char_idem toLowerCase_char_idem)


lemma capitalize_fixed:
  "capitalize ''Common'' = ''Common''" "capitalize ''Rare'' = ''Rare''"
  "capitalize ''Legendary'' = ''Legendary''" "capitalize ''Platinum'' = ''Platinum''"
  "capitalize ''Silver'' = ''Silver''" "capitalize ''Gold'' = ''Gold''"
  by code_simp+


lemma normalizeRarity_capitalized: "capitalize (normalizeRarity r) = normalizeRarity r"
  by (cases r) (simp_all add: normalizeRarity_def Let_def capitalize_fixed capitalize_idem)











section \<open>Optimistic view cache: rollback and overlapping mutations\<close>

lemma optimisticStake_backup: "backupState (optimisticStake r ids src now s) = rendered_allNFTs r"
  by (simp add: optimisticStake_def)

lemma optimisticStake_length:
  "length (allNFTs (optimisticStake r ids src now s)) = length (allNFTs s)"
  by (simp add: optimisticStake_def)

lemma revert_restores_backup:
  assumes "rendered_backupState r = xs" and "length (allNFTs s') = length xs"
  shows "allNFTs (revertOptimisticUpdate r s') = xs"
proof (cases xs)
  case Nil
  with assms show ?thesis by (simp add: revertOptimisticUpdate_def)
next
  case (Cons x ys)
  with assms show ?thesis by (simp add: revertOptimisticUpdate_def)
qed

lemma rendered_revert_restores:
  "allNFTs (revertOptimisticUpdate (render_of (optimisticStake (render_of s) ids src now s))
             (optimisticStake (render_of s) ids src now s)) = allNFTs s"
  by (rule revert_restores_backup)
    (simp_all add: render_of_def optimisticStake_backup optimisticStake_length)

text \<open>
  Claim C7 as stated fails, in two ways. A revert callback created by the render that
  preceded the stake closes over the empty snapshot of that render: it does nothing, and
  asset \<open>a\<close> stays staked. And a stake callback created by a render that preceded another
  mutation (here the claiming flag set by \<open>updateNFTOptimistically\<close>) saves the list of that
  earlier render as its snapshot: reverting the stake, even with the newest revert callback,
  also takes back the claiming flag, so the asset is not in the state it had just before
  the stake.
\<close>

theorem stale_revert_counterexample:
  "revertOptimisticUpdate (render_of example_cache)
      (optimisticStake (render_of example_cache) [''a''] SrcOffchain 100 example_cache)
     = optimisticStake (render_of example_cache) [''a''] SrcOffchain 100 example_cache
   \<and> map isStaked (allNFTs example_cache) = [False]
   \<and> map isStaked
        (allNFTs (revertOptimisticUpdate (render_of example_cache)
           (optimisticStake (render_of example_cache) [''a''] SrcOffchain 100 example_cache)))
       = [True]
   \<and> map claimingStatus
        (allNFTs (updateNFTOptimistically (render_of example_cache) ''a'' example_update 50
           example_cache)) = [Some Claiming]
   \<and> map claimingStatus
        (allNFTs (revertOptimisticUpdate
           (render_of (optimisticStake (render_of example_cache) [''a''] SrcOffchain 100
              (updateNFTOptimistically (render_of example_cache) ''a'' example_update 50
                 example_cache)))
           (optimisticStake (render_of example_cache) [''a''] SrcOffchain 100
              (updateNFTOptimistically (render_of example_cache) ''a'' example_update 50
                 example_cache)))) = [None]"
  by (simp add: revertOptimisticUpdate_def optimisticStake_def updateNFTOptimistically_def
      render_of_def example_cache_def example_nft_def example_update_def apply_updates_def
      override_def)

text \<open>
  Claim C7, amended. For every cached view state and every optimistic stake mutation issued
  through the callback of the current render (so that the snapshot is the current view),
  applying the mutation and then reverting through the callback of the render that follows
  the mutation gives back the list of cached assets exactly as it was: status, stake flag,
  staking source and stake timestamp of every asset have their values from before the
  mutation. In between, every asset named by the mutation is staked with the given source
  and timestamp; after the revert of a non-empty view the snapshot is dropped and the cache
  is no longer marked dirty.
\<close>

theorem optimisticStake_rendered_revert_restores:
  "allNFTs (revertOptimisticUpdate (render_of (optimisticStake (render_of s) ids src now s))
             (optimisticStake (render_of s) ids src now s)) = allNFTs s
   \<and> map status (allNFTs (revertOptimisticUpdate
         (render_of (optimisticStake (render_of s) ids src now s))
         (optimisticStake (render_of s) ids src now s))) = map status (allNFTs s)
   \<and> map isStaked (allNFTs (revertOptimisticUpdate
         (render_of (optimisticStake (render_of s) ids src now s))
         (optimisticStake (render_of s) ids src now s))) = map isStaked (allNFTs s)
   \<and> map stakingSource (allNFTs (revertOptimisticUpdate
         (render_of (optimisticStake (render_of s) ids src now s))
         (optimisticStake (render_of s) ids src now s))) = map stakingSource (allNFTs s)
   \<and> map stakeTimestamp (allNFTs (revertOptimisticUpdate
         (render_of (optimisticStake (render_of s) ids src now s))
         (optimisticStake (render_of s) ids src now s))) = map stakeTimestamp (allNFTs s)
   \<and> (\<forall>nft \<in> set (allNFTs (optimisticStake (render_of s) ids src now s)).
         nft_id nft \<in> set ids \<longrightarrow>
           isStaked nft \<and> stakingSource nft = src \<and> stakeTimestamp nft = Some now)
   \<and> (allNFTs s \<noteq> [] \<longrightarrow>
         backupState (revertOptimisticUpdate
           (render_of (optimisticStake (render_of s) ids src now s))
           (optimisticStake (render_of s) ids src now s)) = []
         \<and> \<not> hasOptimisticUpdates (revertOptimisticUpdate
           (render_of (optimisticStake (render_of s) ids src now s))
           (optimisticStake (render_of s) ids src now s)))"
proof -
  have staked: "\<forall>nft \<in> set (allNFTs (optimisticStake (render_of s) ids src now s)).
         nft_id nft \<in> set ids \<longrightarrow>
           isStaked nft \<and> stakingSource nft = src \<and> stakeTimestamp nft = Some now"
    by (auto simp add: optimisticStake_def)
  have cleared: "backupState (revertOptimisticUpdate
           (render_of (optimisticStake (render_of s) ids src now s))
           (optimisticStake (render_of s) ids src now s)) = []
         \<and> \<not> hasOptimisticUpdates (revertOptimisticUpdate
           (render_of (optimisticStake (render_of s) ids src now s))
           (optimisticStake (render_of s) ids src now s))" if "allNFTs s \<noteq> []"
    using that by (simp add: revertOptimisticUpdate_def render_of_def optimisticStake_def)
  from staked cleared show ?thesis
    by (simp only: rendered_revert_restores) simp
qed

theorem optimisticStake_rendered_revert_restores_witness:
  "map (\<lambda>nft. (nft_id nft, isStaked nft, stakingSource nft, stakeTimestamp nft))
       (allNFTs example_cache) = [(''a'', False, SrcNone, None)]
   \<and> map (\<lambda>nft. (nft_id nft, isStaked nft, stakingSource nft, stakeTimestamp nft))
       (allNFTs (optimisticStake (render_of example_cache) [''a''] SrcOffchain 100 example_cache))
       = [(''a'', True, SrcOffchain, Some 100)]
   \<and> allNFTs (revertOptimisticUpdate
         (render_of (optimisticStake (render_of example_cache) [''a''] SrcOffchain 100 example_cache))
         (optimisticStake (render_of example_cache) [''a''] SrcOffchain 100 example_cache))
       = [example_nft]
   \<and> backupState (revertOptimisticUpdate
         (render_of (optimisticStake (render_of example_cache) [''a''] SrcOffchain 100 example_cache))
         (optimisticStake (render_of example_cache) [''a''] SrcOffchain 100 example_cache)) = []"
proof -
  note t = optimisticStake_rendered_revert_restores [of example_cache "[''a'']" SrcOffchain 100]
  have a: "allNFTs example_cache = [example_nft]"
    by (simp add: example_cache_def)
  have b: "map (\<lambda>nft. (nft_id nft, isStaked nft, stakingSource nft, stakeTimestamp nft))
       (allNFTs example_cache) = [(''a'', False, SrcNone, None)]"
    by (simp add: example_cache_def example_nft_def)
  have c: "map (\<lambda>nft. (nft_id nft, isStaked nft, stakingSource nft, stakeTimestamp nft))
       (allNFTs (optimisticStake (render_of example_cache) [''a''] SrcOffchain 100 example_cache))
       = [(''a'', True, SrcOffchain, Some 100)]"
    by (simp add: optimisticStake_def example_cache_def example_nft_def)
  from t [THEN conjunct1] a have d: "allNFTs (revertOptimisticUpdate
         (render_of (optimisticStake (render_of example_cache) [''a''] SrcOffchain 100 example_cache))
         (optimisticStake (render_of example_cache) [''a''] SrcOffchain 100 example_cache))
       = [example_nft]" by simp
  from t a have e: "backupState (revertOptimisticUpdate
         (render_of (optimisticStake (render_of example_cache) [''a''] SrcOffchain 100 example_cache))
         (optimisticStake (render_of example_cache) [''a''] SrcOffchain 100 example_cache)) = []"
    by simp
  from b c d e show ?thesis by (intro conjI)
qed

text \<open>
  Claim C4 as stated fails: with the stake of asset \<open>a\<close> still outstanding, a second
  optimistic mutation of \<open>a\<close> is applied. Issued through the callback of the render that
  followed the stake, it changes both the cached view and the saved snapshot; issued through
  the callback of the render that preceded the stake, it still changes the cached view.
\<close>

theorem second_mutation_applied_counterexample:
  "allNFTs (updateNFTOptimistically
             (render_of (optimisticStake (render_of example_cache) [''a''] SrcOffchain 100 example_cache))
             ''a'' example_update 200
             (optimisticStake (render_of example_cache) [''a''] SrcOffchain 100 example_cache))
     \<noteq> allNFTs (optimisticStake (render_of example_cache) [''a''] SrcOffchain 100 example_cache)
   \<and> backupState (updateNFTOptimistically
             (render_of (optimisticStake (render_of example_cache) [''a''] SrcOffchain 100 example_cache))
             ''a'' example_update 200
             (optimisticStake (render_of example_cache) [''a''] SrcOffchain 100 example_cache))
     \<noteq> backupState (optimisticStake (render_of example_cache) [''a''] SrcOffchain 100 example_cache)
   \<and> allNFTs (updateNFTOptimistically (render_of example_cache) ''a'' example_update 200
             (optimisticStake (render_of example_cache) [''a''] SrcOffchain 100 example_cache))
     \<noteq> allNFTs (optimisticStake (render_of example_cache) [''a''] SrcOffchain 100 example_cache)"
  by (simp add: updateNFTOptimistically_def optimisticStake_def render_of_def example_cache_def
      example_nft_def example_update_def apply_updates_def override_def)

text \<open>
  Claim C4, amended. The cache has no in-flight check and no \<open>ErrMutationInFlight\<close>: a
  second optimistic mutation (\<open>optimisticStake\<close> or \<open>updateNFTOptimistically\<close>) issued while a
  stake is outstanding is not rejected. It is applied to the cached view, on top of the
  first mutation; the cache stays marked dirty; and the saved snapshot is replaced by the
  asset list of the render whose callback issued the call, which for the render that
  followed the first mutation is the view that includes the first mutation.
\<close>

theorem second_mutation_is_applied:
  "allNFTs (optimisticStake r' ids' src' t' (optimisticStake r ids src t s))
     = map (\<lambda>nft. if nft_id nft \<in> set ids'
                  then nft\<lparr>isStaked := True, stakingSource := src', stakeTimestamp := Some t',
                           dailyReward := getDailyRewardForRarity (rarity nft)\<rparr>
                  else nft)
           (allNFTs (optimisticStake r ids src t s))
   \<and> allNFTs (updateNFTOptimistically r' i u t' (optimisticStake r ids src t s))
     = map (\<lambda>nft. if nft_id nft = i
                  then (apply_updates u nft)\<lparr>lastUpdated := Some t', optimisticUpdate := Some True\<rparr>
                  else nft)
           (allNFTs (optimisticStake r ids src t s))
   \<and> backupState (optimisticStake r' ids' src' t' (optimisticStake r ids src t s))
     = rendered_allNFTs r'
   \<and> backupState (updateNFTOptimistically r' i u t' (optimisticStake r ids src t s))
     = rendered_allNFTs r'
   \<and> hasOptimisticUpdates (optimisticStake r' ids' src' t' (optimisticStake r ids src t s))
   \<and> hasOptimisticUpdates (updateNFTOptimistically r' i u t' (optimisticStake r ids src t s))
   \<and> rendered_allNFTs (render_of (optimisticStake r ids src t s))
     = allNFTs (optimisticStake r ids src t s)"
  by (simp add: optimisticStake_def updateNFTOptimistically_def render_of_def)

section \<open>Chain reads: what a failed read looks like to the caller\<close>

text \<open>
  Claim C5 as stated fails: the single read of \<open>flaky_env\<close> fails, and the caller of
  \<open>getStakeInfo\<close> observes an empty staked-token list with zero pending rewards.
\<close>

theorem getStakeInfo_failure_counterexample:
  "getStakeInfo_try flaky_env ''0xAA'' = Inl (Error ''request timed out'')
   \<and> getStakeInfo flaky_env ''0xAA'' = \<lparr>stakedNFTs = [], pendingRewards = ''0''\<rparr>"
  by (simp add: getStakeInfo_def getStakeInfo_try_def flaky_env_def)

lemma getStakeInfo_any_failure:
  "getStakeInfo_try env w = Inl e \<Longrightarrow> getStakeInfo env w = \<lparr>stakedNFTs = [], pendingRewards = ''0''\<rparr>"
  by (simp add: getStakeInfo_def)

text \<open>
  Claim C5, amended. When the contract read made by \<open>getStakeInfo\<close> fails (the read is
  attempted once), the \<open>try\<close> block throws that error and the function returns the empty
  staked-token list with pending rewards \<open>0\<close>, the value a wallet with nothing staked
  yields, whatever a later read would have returned.
\<close>

theorem getStakeInfo_failure_is_empty:
  assumes "initializeContracts_error env = None" and "stakingContract_present env"
    and "toChecksumAddress env w = Inr a" and "getStakeInfo_call env 0 a = Inl e"
  shows "getStakeInfo_try env w = Inl e
     \<and> getStakeInfo env w = \<lparr>stakedNFTs = [], pendingRewards = ''0''\<rparr>"
  using assms by (simp add: getStakeInfo_def getStakeInfo_try_def)

theorem getStakeInfo_failure_is_empty_witness:
  "initializeContracts_error flaky_env = None \<and> stakingContract_present flaky_env
   \<and> toChecksumAddress flaky_env ''0xAA'' = Inr ''0xAA''
   \<and> getStakeInfo_call flaky_env 0 ''0xAA'' = Inl (Error ''request timed out'')
   \<and> getStakeInfo_call flaky_env 1 ''0xAA'' = Inr ([7], 1)
   \<and> getStakeInfo flaky_env ''0xAA'' = \<lparr>stakedNFTs = [], pendingRewards = ''0''\<rparr>"
proof -
  have h: "initializeContracts_error flaky_env = None" "stakingContract_present flaky_env"
    "toChecksumAddress flaky_env ''0xAA'' = Inr ''0xAA''"
    "getStakeInfo_call flaky_env 0 ''0xAA'' = Inl (Error ''request timed out'')"
    by (simp_all add: flaky_env_def)
  have "getStakeInfo_call flaky_env 1 ''0xAA'' = Inr ([7], 1)"
    by (simp add: flaky_env_def)
  with h getStakeInfo_failure_is_empty [OF h] show ?thesis by simp
qed

section \<open>The staking service object never gets its wallet provider\<close>

text \<open>
  \<open>initializeWeb3\<close> assigns at most \<open>readOnlyWeb3\<close>. Hence a service whose \<open>web3\<close> is \<open>null\<close>
  keeps it \<open>null\<close>, \<open>initializeContracts\<close> throws on it before it assigns any contract handle,
  and the fields stay as the constructor left them.
\<close>

lemma initializeWeb3_fields:
  "web3 (initializeWeb3 penv st) = web3 st"
  "nftContract (initializeWeb3 penv st) = nftContract st"
  "stakingContract (initializeWeb3 penv st) = stakingContract st"
  "readOnlyNftContract (initializeWeb3 penv st) = readOnlyNftContract st"
  "readOnlyStakingContract (initializeWeb3 penv st) = readOnlyStakingContract st"
  "userAccount (initializeWeb3 penv st) = userAccount st"
  by (simp_all add: initializeWeb3_def split: option.split)

lemma uninitialised_initializeWeb3:
  "uninitialised st \<Longrightarrow> uninitialised (initializeWeb3 penv st)"
  by (simp add: uninitialised_def initializeWeb3_fields)


lemma initializeContracts_throws:
  assumes "\<not> web3 st"
  shows "initializeContracts penv st
           = (Inl (Error ''No Ethereum provider available''), initializeWeb3 penv st)"
  using assms by (simp add: initializeContracts_def Let_def initializeWeb3_fields)

lemma uninitialised_initializeContracts:
  assumes "uninitialised st"
  shows "uninitialised (snd (initializeContracts penv st))"
proof -
  from assms have "\<not> web3 st" by (simp add: uninitialised_def)
  then show ?thesis
    by (simp add: initializeContracts_throws uninitialised_initializeWeb3 assms)
qed


section \<open>Approval orchestration: what the loop returns\<close>

lemma approval_try_block_returns_true:
  "approval_try_block env st w t attempt sends = (Inr (Some True), sends)"
  by (simp add: approval_try_block_def Let_def)

lemma approval_loop_first_pass: "approval_loop env st w t 0 0 = (True, 0)"
  by (subst approval_loop.simps)
    (simp add: approval_try_block_returns_true maxRetries_approval_def)

text \<open>
  On a service whose read-only handles are assigned, once the ownership validation has
  passed, \<open>checkAndHandleApproval\<close> returns \<open>true\<close> on its first pass without requesting an
  approval transaction, whatever the two approval reads answer: the test
  \<open>!isApprovedForAll && !isIndividuallyApproved\<close> holds whenever neither check has returned.
\<close>

lemma checkAndHandleApproval_always_true:
  assumes "readOnlyWeb3 st" and "readOnlyNftContract st"
    and "ownerOf_read env t = Inr owner" and "toLowerCase owner = toLowerCase w"
  shows "checkAndHandleApproval env st w t = (Inr True, 0)"
  using assms
  by (simp add: checkAndHandleApproval_def retryRPCCall_def contract_call_def
      approval_loop_first_pass)



section \<open>On-chain staking: recovery after a decode error\<close>

lemma waitForTransactionReceiptSafe_no_receipt:
  assumes "\<And>k. poll k = Inr None \<or> (\<exists>e. poll k = Inl e)"
  shows "waitForTransactionReceiptSafe poll h n k
           = Inl (Error (''Transaction receipt timeout after 60000ms for tx: '' @ h))"
proof (induction n arbitrary: k)
  case 0
  show ?case by simp
next
  case (Suc n)
  from assms [of k] show ?case
    by (auto simp add: Suc)
qed

text \<open>
  What the recovery block yields where it runs, that is on a service whose handles are
  assigned: a non-empty hash found by the block scan is taken as the transaction hash;
  otherwise a token now owned by the staking contract gives the placeholder; otherwise the
  decode error is rethrown.
\<close>

lemma recover_from_decode_error_scan:
  assumes "readOnlyWeb3 st" and "getBlockNumber env attempt = Inr latest"
    and "scan_recent_blocks env st attempt latest [0, 1, 2] = Inr (Some h)" and "h \<noteq> []"
  shows "recover_from_decode_error env st attempt contractError = Inr h"
  using assms by (simp add: recover_from_decode_error_def web3_call_def)

lemma recover_from_decode_error_ownership:
  assumes "readOnlyWeb3 st" and "readOnlyNftContract st"
    and "getBlockNumber env attempt = Inr latest"
    and "scan_recent_blocks env st attempt latest [0, 1, 2] = Inr None"
    and "recovery_ownerOf env attempt = Inr owner"
    and "toLowerCase owner = toLowerCase (STAKING_CONTRACT (approval env))"
  shows "recover_from_decode_error env st attempt contractError
           = Inr ''success_via_ownership_check''"
  using assms by (simp add: recover_from_decode_error_def web3_call_def contract_call_def)

lemma recover_from_decode_error_neither:
  assumes "readOnlyWeb3 st" and "readOnlyNftContract st"
    and "getBlockNumber env attempt = Inr latest"
    and "scan_recent_blocks env st attempt latest [0, 1, 2] = Inr None"
    and "recovery_ownerOf env attempt = Inr owner"
    and "toLowerCase owner \<noteq> toLowerCase (STAKING_CONTRACT (approval env))"
  shows "recover_from_decode_error env st attempt contractError = Inl contractError"
  using assms by (simp add: recover_from_decode_error_def web3_call_def contract_call_def)

text \<open>
  Whenever the transaction loop ends with the placeholder and the chain has no receipt
  under that name, the wait for the receipt times out and the staking is reported as
  failed.
\<close>

lemma placeholder_hash_times_out:
  assumes "parseInt tokenId = Some t" and "0 \<le> t"
    and "stake_attempts env st (nat t) 1 = Inr ''success_via_ownership_check''"
    and "\<And>k. getTransactionReceipt env ''success_via_ownership_check'' k = Inr None
            \<or> (\<exists>e. getTransactionReceipt env ''success_via_ownership_check'' k = Inl e)"
  shows "stake_and_confirm env st tokenId
      = Inl (Error (''Transaction receipt timeout after 60000ms for tx: ''
               @ ''success_via_ownership_check''))"
proof -
  have p: "web3_call (readOnlyWeb3 st) (getTransactionReceipt env ''success_via_ownership_check'' k)
             = Inr None
           \<or> (\<exists>e. web3_call (readOnlyWeb3 st)
                      (getTransactionReceipt env ''success_via_ownership_check'' k) = Inl e)" for k
    using assms(4) [of k] by (auto simp add: web3_call_def)
  have w: "waitForTransactionReceiptSafe
             (\<lambda>k. web3_call (readOnlyWeb3 st)
                     (getTransactionReceipt env ''success_via_ownership_check'' k))
             ''success_via_ownership_check'' (receipt_polls env) 0
           = Inl (Error (''Transaction receipt timeout after 60000ms for tx: ''
               @ ''success_via_ownership_check''))"
    using p by (rule waitForTransactionReceiptSafe_no_receipt)
  from assms(2) have nn: "\<not> t < 0" by simp
  show ?thesis
    unfolding stake_and_confirm_def
    by (simp only: assms(1,3) w nn option.case sum.case if_False)
qed

text \<open>
  With a transaction hash that has a successful receipt at the first poll, the staking is
  reported as a success carrying the receipt's hash; this is the path a hash recovered by
  the block scan takes.
\<close>

lemma receipt_confirms_success:
  assumes "parseInt tokenId = Some t" and "0 \<le> t"
    and "stake_attempts env st (nat t) 1 = Inr h"
    and "readOnlyWeb3 st" and "receipt_polls env > 0"
    and "getTransactionReceipt env h 0 = Inr (Some r)" and "receipt_ok r"
  shows "stake_and_confirm env st tokenId = Inr (receipt_hash r)"
proof -
  obtain n where n: "receipt_polls env = Suc n"
    using assms(5) by (cases "receipt_polls env") simp_all
  have w: "waitForTransactionReceiptSafe
             (\<lambda>k. web3_call (readOnlyWeb3 st) (getTransactionReceipt env h k)) h
             (receipt_polls env) 0 = Inr r"
    by (simp add: n assms(4,6) web3_call_def)
  from assms(2) have nn: "\<not> t < 0" by simp
  show ?thesis
    unfolding stake_and_confirm_def
    by (simp only: assms(1,3,7) w nn option.case sum.case if_False not_True_eq_False)
qed




section \<open>Reconciliation after an on-chain unstake keeps the record\<close>

lemma unstakeNFT_fields:
  "map stake_time_fields (snd (unstakeNFT f now w i rs)) = map stake_time_fields rs"
  by (simp add: unstakeNFT_def stake_time_fields_def comp_def)

lemma unstakeNFT_pointwise:
  "list_all2 (\<lambda>r r'. r' = r \<or> (unstakedAt r = None \<and> r' = r\<lparr>unstakedAt := Some now\<rparr>))
     rs (snd (unstakeNFT f now w i rs))"
  by (auto simp add: unstakeNFT_def list_all2_map2 is_live_record_def intro!: list_all2_refl)

lemma unstakeNFT_not_updated:
  "fst (unstakeNFT f now w i rs) \<noteq> Inr True \<Longrightarrow> snd (unstakeNFT f now w i rs) = rs"
  by (simp add: unstakeNFT_def split: if_splits)

lemma try_possibleIds_fields:
  "map stake_time_fields (snd (try_possibleIds f now w st ids rs)) = map stake_time_fields rs"
proof (induction ids arbitrary: rs)
  case Nil
  show ?case by simp
next
  case (Cons i ids)
  show ?case
  proof (cases "st = Unstaked")
    case False
    then show ?thesis by (simp add: Cons)
  next
    case True
    obtain r rs' where u: "unstakeNFT f now w i rs = (r, rs')" by (cases "unstakeNFT f now w i rs")
    have f: "map stake_time_fields rs' = map stake_time_fields rs"
      using unstakeNFT_fields [of f now w i rs] u by simp
    have ih: "map stake_time_fields (snd (try_possibleIds f now w st ids rs'))
                = map stake_time_fields rs"
      using Cons [of rs'] f by simp
    show ?thesis
    proof (cases r)
      case (Inl e)
      with True u ih show ?thesis by simp
    next
      case (Inr b)
      with True u f ih show ?thesis by (cases b) simp_all
    qed
  qed
qed

lemma try_possibleIds_pointwise:
  "list_all2 (\<lambda>r r'. r' = r \<or> (unstakedAt r = None \<and> r' = r\<lparr>unstakedAt := Some now\<rparr>))
     rs (snd (try_possibleIds f now w st ids rs))"
proof (induction ids arbitrary: rs)
  case Nil
  show ?case by (simp add: list_all2_refl)
next
  case (Cons i ids)
  show ?case
  proof (cases "st = Unstaked")
    case False
    then show ?thesis by (simp add: Cons)
  next
    case True
    obtain r rs' where u: "unstakeNFT f now w i rs = (r, rs')" by (cases "unstakeNFT f now w i rs")
    have p: "list_all2 (\<lambda>r r'. r' = r \<or> (unstakedAt r = None \<and> r' = r\<lparr>unstakedAt := Some now\<rparr>)) rs rs'"
      using unstakeNFT_pointwise [of now rs f w i] u by simp
    show ?thesis
    proof (cases "r = Inr True")
      case True
      with \<open>st = Unstaked\<close> u p show ?thesis by simp
    next
      case False
      then have "rs' = rs" using unstakeNFT_not_updated [of f now w i rs] u by simp
      with False \<open>st = Unstaked\<close> u Cons [of rs] show ?thesis
        by (cases r) (auto split: bool.splits)
    qed
  qed
qed

lemma unstakeNFT_marks:
  assumes "\<not> f i" and "list_ex (is_live_record w i) rs"
  shows "fst (unstakeNFT f now w i rs) = Inr True"
    and "list_all2 (\<lambda>r r'. is_live_record w i r \<longrightarrow> unstakedAt r' = Some now)
           rs (snd (unstakeNFT f now w i rs))"
  using assms by (auto simp add: unstakeNFT_def list_all2_map2 intro!: list_all2_refl)

text \<open>
  Claim C9. After a confirmed on-chain unstake the list of staking records has the same
  length and every record keeps its stake-time fields; a record is either untouched or was
  live and differs only in \<open>unstakedAt\<close>, now set. When the wallet has a live record under
  the id \<open>onchain_<tokenId>\<close> and the request for it goes through, every such record is
  marked unstaked.
\<close>

theorem unstake_reconciliation_never_deletes:
  assumes "receipt_ok receipt"
  shows "fst (unstakeNFTOnChain_confirm f now w t receipt rs)
     \<and> length (snd (unstakeNFTOnChain_confirm f now w t receipt rs)) = length rs
     \<and> map stake_time_fields (snd (unstakeNFTOnChain_confirm f now w t receipt rs))
         = map stake_time_fields rs
     \<and> list_all2 (\<lambda>r r'. r' = r \<or> (unstakedAt r = None \<and> r' = r\<lparr>unstakedAt := Some now\<rparr>))
         rs (snd (unstakeNFTOnChain_confirm f now w t receipt rs))
     \<and> (\<not> f (''onchain_'' @ t) \<and> list_ex (is_live_record w (''onchain_'' @ t)) rs
         \<longrightarrow> list_all2 (\<lambda>r r'. is_live_record w (''onchain_'' @ t) r \<longrightarrow> unstakedAt r' = Some now)
               rs (snd (unstakeNFTOnChain_confirm f now w t receipt rs)))"
proof -
  let ?rs' = "snd (unstakeNFTOnChain_confirm f now w t receipt rs)"
  have eq: "?rs' = snd (try_possibleIds f now w Unstaked (possibleIds t) rs)"
    using assms by (simp add: unstakeNFTOnChain_confirm_def updateOffchainStakingRecord_def)
  have fields: "map stake_time_fields ?rs' = map stake_time_fields rs"
    unfolding eq by (rule try_possibleIds_fields)
  then have len: "length ?rs' = length rs"
    by (metis length_map)
  have pw: "list_all2 (\<lambda>r r'. r' = r \<or> (unstakedAt r = None \<and> r' = r\<lparr>unstakedAt := Some now\<rparr>)) rs ?rs'"
    unfolding eq by (rule try_possibleIds_pointwise)
  have marks: "list_all2 (\<lambda>r r'. is_live_record w (''onchain_'' @ t) r \<longrightarrow> unstakedAt r' = Some now) rs ?rs'"
    if h: "\<not> f (''onchain_'' @ t)" "list_ex (is_live_record w (''onchain_'' @ t)) rs"
  proof -
    have "fst (unstakeNFT f now w (''onchain_'' @ t) rs) = Inr True"
      using h by (rule unstakeNFT_marks(1))
    then obtain rs1 where u: "unstakeNFT f now w (''onchain_'' @ t) rs = (Inr True, rs1)"
      by (cases "unstakeNFT f now w (''onchain_'' @ t) rs") simp
    then have "?rs' = rs1"
      unfolding eq by (simp add: possibleIds_def)
    moreover have "list_all2 (\<lambda>r r'. is_live_record w (''onchain_'' @ t) r \<longrightarrow> unstakedAt r' = Some now)
           rs (snd (unstakeNFT f now w (''onchain_'' @ t) rs))"
      using h by (rule unstakeNFT_marks(2))
    ultimately show ?thesis using u by simp
  qed
  from assms fields len pw marks show ?thesis
    by (simp add: unstakeNFTOnChain_confirm_def)
qed

theorem unstake_reconciliation_never_deletes_witness:
  "receipt_ok \<lparr>receipt_ok = True, receipt_hash = ''0xw''\<rparr>
   \<and> \<not> (\<lambda>_. False) (''onchain_'' @ ''42'')
   \<and> list_ex (is_live_record ''0xaa'' (''onchain_'' @ ''42'')) example_records
   \<and> length (snd (unstakeNFTOnChain_confirm (\<lambda>_. False) 2000 ''0xaa'' ''42''
         \<lparr>receipt_ok = True, receipt_hash = ''0xw''\<rparr> example_records)) = 2
   \<and> map unstakedAt (snd (unstakeNFTOnChain_confirm (\<lambda>_. False) 2000 ''0xaa'' ''42''
         \<lparr>receipt_ok = True, receipt_hash = ''0xw''\<rparr> example_records)) = [Some 2000, None]"
proof -
  have live: "list_ex (is_live_record ''0xaa'' (''onchain_'' @ ''42'')) example_records"
    by code_simp
  have ok: "receipt_ok \<lparr>receipt_ok = True, receipt_hash = ''0xw''\<rparr>" by simp
  have val: "map unstakedAt (snd (unstakeNFTOnChain_confirm (\<lambda>_. False) 2000 ''0xaa'' ''42''
         \<lparr>receipt_ok = True, receipt_hash = ''0xw''\<rparr> example_records)) = [Some 2000, None]"
    by code_simp
  have len: "length example_records = 2" by (simp add: example_records_def)
  from unstake_reconciliation_never_deletes [OF ok, of "\<lambda>_. False" 2000 "''0xaa''" "''42''" example_records]
    live val len show ?thesis by simp
qed

section \<open>Burn engine: a failed on-chain transfer leaves the database alone\<close>

text \<open>Values computed on the concrete burn scenario.\<close>

lemma lower_common: "toLowerCase ''Common'' = ''common''" "toLowerCase ''common'' = ''common''"
  "toLowerCase ''rare'' = ''rare''" "toLowerCase ''0xAA'' = ''0xaa''"
  by code_simp+

lemma token_on_42: "token_of on_42 = Some 42"
proof -
  have "parseInt ''42'' = Some 42" by code_simp
  then show ?thesis by (simp add: token_of_def on_42_def)
qed

lemma show_42: "show_number (Some 42) = ''42''"
  by code_simp

lemma analyze_strategy:
  assumes "analyzeNFTSelection rules nfts = Inr a"
  shows "burnStrategy a =
           (if list_ex (\<lambda>n. b_status n = Offchain) nfts \<and> list_ex (\<lambda>n. b_status n = Onchain) nfts
            then mixed
            else if list_ex (\<lambda>n. b_status n = Onchain) nfts then pure_onchain
            else pure_offchain)"
  using assms by (auto simp add: analyzeNFTSelection_def Let_def split: sum.splits)

lemma list_ex_filter_nonempty: "list_ex P xs \<Longrightarrow> filter P xs \<noteq> []"
  by (induction xs) auto

text \<open>
  Claim C2. Whenever the selection holds an on-chain asset and the transfer-to-burn-address
  step throws (for any of the tokens, or while initialising the contracts), the burn
  reports failure without a result asset and the database is exactly as before: no pool
  entry marked distributed, no off-chain row removed, no audit row written.
\<close>

theorem failed_onchain_burn_leaves_database:
  assumes "list_ex (\<lambda>n. b_status n = Onchain) nfts"
    and "fst (burnOnchainNFTs (chain env) (filter (\<lambda>n. b_status n = Onchain) nfts) burned) = Inl e"
  shows "snd (snd (executeSmartHybridBurn env wallet nfts (burned, db))) = db
     \<and> \<not> success (fst (executeSmartHybridBurn env wallet nfts (burned, db)))
     \<and> resultNFT (fst (executeSmartHybridBurn env wallet nfts (burned, db))) = None"
proof (cases "analyzeNFTSelection (burn_rules env) nfts")
  case (Inl x)
  then show ?thesis
    by (simp add: executeSmartHybridBurn_def executeSmartHybridBurn_try_def)
next
  case (Inr a)
  obtain burned' where b: "burnOnchainNFTs (chain env) (filter (\<lambda>n. b_status n = Onchain) nfts) burned
      = (Inl e, burned')"
    using assms(2) by (cases "burnOnchainNFTs (chain env) (filter (\<lambda>n. b_status n = Onchain) nfts) burned") simp
  have ne: "filter (\<lambda>n. b_status n = Onchain) nfts \<noteq> []"
    using assms(1) by (rule list_ex_filter_nonempty)
  have s: "burnStrategy a = mixed \<or> burnStrategy a = pure_onchain"
    using analyze_strategy [OF Inr] assms(1) by simp
  show ?thesis
  proof (cases "applicableRule a")
    case None
    with Inr show ?thesis
      by (simp add: executeSmartHybridBurn_def executeSmartHybridBurn_try_def)
  next
    case (Some rule)
    show ?thesis
    proof (cases "isValid a")
      case False
      with Inr Some show ?thesis
        by (simp add: executeSmartHybridBurn_def executeSmartHybridBurn_try_def)
    next
      case True
      from s show ?thesis
      proof
        assume "burnStrategy a = mixed"
        with Inr Some True b ne show ?thesis
          by (simp add: executeSmartHybridBurn_def executeSmartHybridBurn_try_def Let_def)
      next
        assume "burnStrategy a = pure_onchain"
        with Inr Some True b show ?thesis
          by (simp add: executeSmartHybridBurn_def executeSmartHybridBurn_try_def)
      qed
    qed
  qed
qed

theorem failed_onchain_burn_leaves_database_witness:
  "list_ex (\<lambda>n. b_status n = Onchain) [off_1, on_42, off_2]
   \<and> fst (burnOnchainNFTs (chain (scenario_env\<lparr>chain := rejecting_chain\<rparr>))
            (filter (\<lambda>n. b_status n = Onchain) [off_1, on_42, off_2]) [])
       = Inl (Error ''User denied transaction signature'')
   \<and> snd (snd (executeSmartHybridBurn (scenario_env\<lparr>chain := rejecting_chain\<rparr>) ''0xAA''
                 [off_1, on_42, off_2] ([], scenario_db))) = scenario_db
   \<and> \<not> success (fst (executeSmartHybridBurn (scenario_env\<lparr>chain := rejecting_chain\<rparr>) ''0xAA''
                 [off_1, on_42, off_2] ([], scenario_db)))"
proof -
  have h1: "list_ex (\<lambda>n. b_status n = Onchain) [off_1, on_42, off_2]"
    by (simp add: on_42_def)
  have on: "filter (\<lambda>n. b_status n = Onchain) [off_1, on_42, off_2] = [on_42]"
    by (simp add: off_1_def on_42_def off_2_def)
  have inc: "\<not> str_includes (b_id on_42) ''staked_''" by (simp add: on_42_def)
  have h2: "fst (burnOnchainNFTs (chain (scenario_env\<lparr>chain := rejecting_chain\<rparr>))
            (filter (\<lambda>n. b_status n = Onchain) [off_1, on_42, off_2]) [])
       = Inl (Error ''User denied transaction signature'')"
    unfolding on using inc
    by (simp add: burnOnchainNFTs_def rejecting_chain_def good_chain_def token_on_42)
      (simp add: on_42_def)
  note t = failed_onchain_burn_leaves_database [OF h1 h2, of "''0xAA''" scenario_db]
  show ?thesis
    by (intro conjI h1 h2 t [THEN conjunct1] t [THEN conjunct2, THEN conjunct1])
qed

section \<open>Burn engine: interleaved pool allocations\<close>

text \<open>
  Claim C3 as stated fails. With the schedule of \<open>race_db\<close> (both selects before either
  update) burn A and burn B are both handed pool entry 2: both result assets carry its
  content id, the user collections hold it twice, and of the two pool entries only entry 2
  ends up distributed while entry 3 is left over. The update is addressed by id alone and
  is not conditional on \<open>is_distributed\<close>.
\<close>

theorem interleaved_burns_counterexample:
  "map_sum message pool_id race_select_A = Inr 2
   \<and> map_sum message pool_id race_select_B = Inr 2
   \<and> map_sum message nd_ipfs_hash (fst race_claim_A) = Inr ''cidR1''
   \<and> map_sum message nd_ipfs_hash (fst race_claim_B) = Inr ''cidR1''
   \<and> map d_cid (nft_cid_distribution_log (snd race_claim_B)) = [''cidR1'', ''cidR1'']
   \<and> map (\<lambda>p. (pool_id p, is_distributed p)) (nft_cid_pools (snd race_claim_B))
       = [(2, True), (3, False)]"
  by code_simp

subsection \<open>Allocations that do not interleave\<close>

lemma finite_available: "finite (available r db)"
  by (simp add: available_def)

lemma pool_select_available:
  "pool_select fl r db = Inr p \<Longrightarrow> pool_id p \<in> available r db"
  by (auto simp add: pool_select_def available_def find_Some_iff split: if_splits option.splits)

lemma available_pool_select:
  assumes "\<not> select_pool_fails fl" and "available r db \<noteq> {}"
  shows "\<exists>p. pool_select fl r db = Inr p"
proof -
  from assms(2) obtain q where "q \<in> set (nft_cid_pools db)"
    and "pool_rarity q = toLowerCase r \<and> \<not> is_distributed q"
    by (auto simp add: available_def filter_empty_conv)
  then have "find (\<lambda>p. pool_rarity p = toLowerCase r \<and> \<not> is_distributed p) (nft_cid_pools db) \<noteq> None"
    by (auto simp add: find_None_iff)
  with assms(1) show ?thesis
    by (auto simp add: pool_select_def)
qed

lemma available_after_mark:
  "set (map pool_id (filter (\<lambda>q. pool_rarity q = x \<and> \<not> is_distributed q)
          (map (\<lambda>q. if pool_id q = i
                     then q\<lparr>is_distributed := True, distributed_at := t,
                            distributed_to_wallet := w\<rparr>
                     else q) ps)))
   = set (map pool_id (filter (\<lambda>q. pool_rarity q = x \<and> \<not> is_distributed q) ps)) - {i}"
  by (induction ps) auto

lemma allocation_removes_selected:
  assumes "insert_log_error fl = None" and "\<not> update_pool_fails fl"
    and "pool_select fl r db = Inr p"
  shows "\<exists>res db'. getResultNFTFromOffchainPool fl w r i t db = (Inr res, db')
           \<and> available r db' = available r db - {pool_id p}"
proof -
  obtain res db' where get: "getResultNFTFromOffchainPool fl w r i t db = (Inr res, db')"
    and pools: "nft_cid_pools db'
        = map (\<lambda>q. if pool_id q = pool_id p
                    then q\<lparr>is_distributed := True, distributed_at := Some t,
                           distributed_to_wallet := Some (toLowerCase w)\<rparr>
                    else q) (nft_cid_pools db)"
    using assms by (simp add: getResultNFTFromOffchainPool_def pool_claim_def Let_def)
  have "available r db' = available r db - {pool_id p}"
    unfolding available_def pools by (rule available_after_mark)
  with get show ?thesis by blast
qed

lemma allocate_sequentially_distinct:
  assumes "\<not> select_pool_fails fl" and "insert_log_error fl = None" and "\<not> update_pool_fails fl"
  shows "length burns \<le> card (available r db) \<Longrightarrow>
         length (fst (allocate_sequentially fl r burns db)) = length burns
         \<and> distinct (fst (allocate_sequentially fl r burns db))
         \<and> set (fst (allocate_sequentially fl r burns db)) \<subseteq> available r db
         \<and> available r (snd (allocate_sequentially fl r burns db))
             = available r db - set (fst (allocate_sequentially fl r burns db))"
proof (induction burns arbitrary: db)
  case Nil
  show ?case by simp
next
  case (Cons b burns)
  obtain w i t where b: "b = (w, i, t)" by (cases b)
  from Cons.prems have "card (available r db) \<noteq> 0" by auto
  then have ne: "available r db \<noteq> {}" by auto
  from available_pool_select [OF assms(1) ne]
  obtain p where sel: "pool_select fl r db = Inr p" by blast
  from allocation_removes_selected [OF assms(2,3) sel, of w i t]
  obtain res db' where get: "getResultNFTFromOffchainPool fl w r i t db = (Inr res, db')"
    and av: "available r db' = available r db - {pool_id p}" by blast
  have pin: "pool_id p \<in> available r db" using sel by (rule pool_select_available)
  have "card (available r db') = card (available r db) - 1"
    using pin by (simp add: av finite_available)
  with Cons.prems have le: "length burns \<le> card (available r db')" by simp
  obtain ids db'' where rest: "allocate_sequentially fl r burns db' = (ids, db'')"
    by (cases "allocate_sequentially fl r burns db'")
  from Cons.IH [OF le] rest
  have ih: "length ids = length burns" "distinct ids" "set ids \<subseteq> available r db'"
    "available r db'' = available r db' - set ids" by simp_all
  have all: "allocate_sequentially fl r (b # burns) db = (pool_id p # ids, db'')"
    by (simp add: b get sel rest)
  from ih(3) av have notin: "pool_id p \<notin> set ids" by auto
  from ih(3) av have sub: "set ids \<subseteq> available r db" by auto
  show ?case
    unfolding all using ih(1,2,4) notin sub pin av by auto
qed

text \<open>
  Claim C3, amended. When the pool allocations of the burns run one after another, with
  no database request failing and with at least as many undistributed entries of the
  rarity as there are burns, every burn is given a pool entry, the entries given are
  pairwise distinct and were all undistributed before, and exactly they are distributed
  afterwards; with a pool of exactly as many entries as burns, none is left.
\<close>

theorem sequential_burns_claim_distinct_entries:
  assumes "\<not> select_pool_fails fl" and "insert_log_error fl = None" and "\<not> update_pool_fails fl"
    and "length burns \<le> card (available r db)"
  shows "length (fst (allocate_sequentially fl r burns db)) = length burns
     \<and> distinct (fst (allocate_sequentially fl r burns db))
     \<and> set (fst (allocate_sequentially fl r burns db)) \<subseteq> available r db
     \<and> available r (snd (allocate_sequentially fl r burns db))
         = available r db - set (fst (allocate_sequentially fl r burns db))
     \<and> (card (available r db) = length burns
          \<longrightarrow> available r (snd (allocate_sequentially fl r burns db)) = {})"
proof -
  let ?ids = "fst (allocate_sequentially fl r burns db)"
  note d = allocate_sequentially_distinct [OF assms]
  have "available r db - set ?ids = {}" if c: "card (available r db) = length burns"
  proof -
    from d have "card (set ?ids) = length burns"
      by (simp add: distinct_card)
    with d c have "set ?ids = available r db"
      by (intro card_subset_eq finite_available) simp_all
    then show ?thesis by simp
  qed
  with d show ?thesis by simp
qed

lemma available_race_db: "available ''rare'' race_db = {2, 3}"
proof -
  have "toLowerCase ''rare'' = ''rare''" by code_simp
  then show ?thesis
    by (simp add: available_def race_db_def pool_2_def pool_3_def)
qed

theorem sequential_burns_claim_distinct_entries_witness:
  "\<not> select_pool_fails no_faults \<and> insert_log_error no_faults = None
   \<and> \<not> update_pool_fails no_faults
   \<and> length [(''0xaa'', ''uuid-a'', 10 :: nat), (''0xbb'', ''uuid-b'', 11)]
       = card (available ''rare'' race_db)
   \<and> length (fst (allocate_sequentially no_faults ''rare''
         [(''0xaa'', ''uuid-a'', 10), (''0xbb'', ''uuid-b'', 11)] race_db)) = 2
   \<and> distinct (fst (allocate_sequentially no_faults ''rare''
         [(''0xaa'', ''uuid-a'', 10), (''0xbb'', ''uuid-b'', 11)] race_db))
   \<and> available ''rare'' (snd (allocate_sequentially no_faults ''rare''
         [(''0xaa'', ''uuid-a'', 10), (''0xbb'', ''uuid-b'', 11)] race_db)) = {}"
proof -
  have f: "\<not> select_pool_fails no_faults" "insert_log_error no_faults = None"
    "\<not> update_pool_fails no_faults"
    by (simp_all add: no_faults_def)
  have c: "length [(''0xaa'', ''uuid-a'', 10 :: nat), (''0xbb'', ''uuid-b'', 11)]
       = card (available ''rare'' race_db)"
    by (simp add: available_race_db)
  then have le: "length [(''0xaa'', ''uuid-a'', 10 :: nat), (''0xbb'', ''uuid-b'', 11)]
       \<le> card (available ''rare'' race_db)"
    by simp
  note t = sequential_burns_claim_distinct_entries [OF f le]
  have l: "length (fst (allocate_sequentially no_faults ''rare''
         [(''0xaa'', ''uuid-a'', 10), (''0xbb'', ''uuid-b'', 11)] race_db)) = 2"
    using t [THEN conjunct1] by simp
  have e: "available ''rare'' (snd (allocate_sequentially no_faults ''rare''
         [(''0xaa'', ''uuid-a'', 10), (''0xbb'', ''uuid-b'', 11)] race_db)) = {}"
    using t [THEN conjunct2, THEN conjunct2, THEN conjunct2, THEN conjunct2] c [symmetric]
    by (rule mp)
  show ?thesis
    by (intro conjI f c l e t [THEN conjunct2, THEN conjunct1])
qed

section \<open>Burn engine: the mixed burn of three common assets\<close>

lemma add_to_group_fields:
  "totalCount (add_to_group n g) = Suc (totalCount g)"
  "group_rarity (add_to_group n g) = group_rarity g"
  by (simp_all add: add_to_group_def)

lemma group_by_rarity_single:
  assumes "\<forall>n\<in>set nfts. toLowerCase (b_rarity n) = r"
    and "r \<noteq> ''constructor''" and "r \<noteq> ''__proto__''"
  shows "group_by_rarity nfts [(r, g)] = Inr [(r, foldl (\<lambda>g n. add_to_group n g) g nfts)]"
  using assms by (induction nfts arbitrary: g) (simp_all add: Let_def)

lemma group_by_rarity_single_start:
  assumes "\<forall>n\<in>set (n0 # nfts). toLowerCase (b_rarity n) = r"
    and "r \<noteq> ''constructor''" and "r \<noteq> ''__proto__''"
  shows "group_by_rarity (n0 # nfts) []
           = Inr [(r, foldl (\<lambda>g n. add_to_group n g) (new_group r) (n0 # nfts))]"
proof -
  from assms(1) have r0: "toLowerCase (b_rarity n0) = r"
    and rest: "\<forall>n\<in>set nfts. toLowerCase (b_rarity n) = r" by simp_all
  show ?thesis
    using r0 assms(2,3) group_by_rarity_single [OF rest assms(2,3)]
    by (simp add: Let_def)
qed

lemma foldl_add_to_group_fields:
  "totalCount (foldl (\<lambda>g n. add_to_group n g) g nfts) = totalCount g + length nfts"
  "group_rarity (foldl (\<lambda>g n. add_to_group n g) g nfts) = group_rarity g"
  by (induction nfts arbitrary: g) (simp_all add: add_to_group_fields)

lemma array_index_common: "array_index ''common'' = None"
  by (simp add: array_index_def digit_val_def)

lemma object_values_common: "object_values [(''common'', g)] = [g]"
  by (simp add: object_values_def array_index_common)

lemma status_cases: "(b_status n \<noteq> Offchain) = (b_status n = Onchain)"
  by (cases "b_status n") simp_all

lemma count_by_status:
  "length (filter (\<lambda>n. b_status n = Onchain) nfts)
     + length (filter (\<lambda>n. b_status n = Offchain) nfts) = length nfts"
  using sum_length_filter_compl [of "\<lambda>n. b_status n = Offchain" nfts]
  by (simp add: status_cases)

lemma filter_nonempty_list_ex: "filter P xs \<noteq> [] \<Longrightarrow> list_ex P xs"
  by (induction xs) (auto split: if_splits)

lemma analyze_three_common:
  assumes len: "length nfts = 3"
    and rar: "\<forall>n\<in>set nfts. toLowerCase (b_rarity n) = ''common''"
    and off: "length (filter (\<lambda>n. b_status n = Offchain) nfts) = 2"
    and rule: "find (\<lambda>r. toLowerCase (minRarity r) = ''common'' \<and> requiredAmount r = 3) rules
                 = Some rule"
  shows "\<exists>gs. analyzeNFTSelection rules nfts
           = Inr \<lparr>burnGroups = gs, burnStrategy = mixed, isValid = True,
                  applicableRule = Some rule\<rparr>"
proof -
  from len obtain n0 rest where nfts: "nfts = n0 # rest" by (cases nfts) auto
  let ?g = "foldl (\<lambda>g n. add_to_group n g) (new_group ''common'') nfts"
  have grp: "group_by_rarity nfts [] = Inr [(''common'', ?g)]"
    using group_by_rarity_single_start [of n0 rest "''common''"] rar
    unfolding nfts by simp
  have g: "totalCount ?g = 3" "group_rarity ?g = ''common''"
    using len by (simp_all add: foldl_add_to_group_fields new_group_def)
  have on: "length (filter (\<lambda>n. b_status n = Onchain) nfts) = 1"
    using count_by_status [of nfts] len off by simp
  have hasOff: "list_ex (\<lambda>n. b_status n = Offchain) nfts"
    using off by (intro filter_nonempty_list_ex) auto
  have hasOn: "list_ex (\<lambda>n. b_status n = Onchain) nfts"
    using on by (intro filter_nonempty_list_ex) auto
  have fr: "find_applicable_rule rules [?g] = Some rule"
    using rule g by simp
  show ?thesis
    using grp hasOff hasOn fr
    by (simp add: analyzeNFTSelection_def object_values_common Let_def)
qed

lemma burn_each_all_succeed:
  assumes "\<forall>n\<in>set ns. \<not> str_includes (b_id n) ''staked_'' \<and> b_stakingStatus n \<noteq> Some Staked
              \<and> b_isStaked n \<noteq> Some True
              \<and> estimateGas_transferFrom c (token_of n) = Inr gas
              \<and> transferFrom_send c (token_of n) = Inr h"
    and "burn_getGasPrice c = Inr price"
  shows "burn_each c ns hs burned = (Inr (hs @ map (\<lambda>_. h) ns), burned @ map token_of ns)"
  using assms by (induction ns arbitrary: hs burned) (simp_all add: Let_def)

lemma mark_one_distributed:
  assumes "distinct (map pool_id ps)" and "p \<in> set ps" and "\<not> is_distributed p"
  shows "length (filter is_distributed
           (map (\<lambda>q. if pool_id q = pool_id p
                      then q\<lparr>is_distributed := True, distributed_at := t, distributed_to_wallet := w\<rparr>
                      else q) ps))
         = Suc (length (filter is_distributed ps))"
  using assms
proof (induction ps)
  case Nil
  then show ?case by simp
next
  case (Cons a ps)
  show ?case
  proof (cases "a = p")
    case True
    with Cons.prems have "pool_id p \<notin> pool_id ` set ps" by simp
    then have "\<forall>q\<in>set ps. pool_id q \<noteq> pool_id p" by (metis imageI)
    then have "map (\<lambda>q. if pool_id q = pool_id p
                      then q\<lparr>is_distributed := True, distributed_at := t, distributed_to_wallet := w\<rparr>
                      else q) ps = ps"
      by (induction ps) simp_all
    with True Cons.prems show ?thesis by simp
  next
    case False
    with Cons.prems have "p \<in> set ps" and "pool_id a \<noteq> pool_id p" and "distinct (map pool_id ps)"
      by auto
    with Cons.IH Cons.prems(3) show ?thesis by simp
  qed
qed



lemma pool_select_pools:
  "nft_cid_pools db' = nft_cid_pools db \<Longrightarrow> pool_select fl r db' = pool_select fl r db"
  by (simp add: pool_select_def)

lemma rare_name: "toUpperCase (charAt0 ''rare'') @ slice1 ''rare'' = ''Rare''"
  by code_simp

lemma length_one_map: "length xs = 1 \<Longrightarrow> map (\<lambda>_. h) xs = [h]"
  by (cases xs) simp_all

lemma burn_ok:
  assumes on1: "length ns = 1"
    and ready: "contracts_ready c"
    and tok: "\<forall>n\<in>set ns.
                \<not> str_includes (b_id n) ''staked_'' \<and> b_stakingStatus n \<noteq> Some Staked
                \<and> b_isStaked n \<noteq> Some True
                \<and> estimateGas_transferFrom c (token_of n) = Inr gas
                \<and> transferFrom_send c (token_of n) = Inr h"
    and price: "burn_getGasPrice c = Inr gasPrice"
  shows "burnOnchainNFTs c ns burned = (Inr [h], burned @ map token_of ns)"
proof -
  have "burn_each c ns [] burned = (Inr ([] @ map (\<lambda>_. h) ns), burned @ map token_of ns)"
    using tok price by (rule burn_each_all_succeed)
  then show ?thesis
    using ready by (simp add: burnOnchainNFTs_def length_one_map [OF on1])
qed

lemma delete_ok:
  "delete_error fl = None \<Longrightarrow>
   burnOffchainNFTsInDatabase fl wallet ids db
     = (Inr (), db\<lparr>nft_cid_distribution_log :=
                filter (\<lambda>row. \<not> (d_wallet_address row = toLowerCase wallet \<and> d_nft_id row \<in> set ids))
                  (nft_cid_distribution_log db)\<rparr>)"
  by (simp add: burnOffchainNFTsInDatabase_def)

lemma get_ok:
  assumes "pool_select fl ''rare'' db = Inr p" and "insert_log_error fl = None"
    and "\<not> update_pool_fails fl"
  shows "getResultNFTFromOffchainPool fl wallet ''rare'' fresh now db
      = (Inr \<lparr>nd_id = fresh, nd_name = ''NEFTIT Rare NFT'', nd_rarity = ''rare'',
               nd_wallet_address = wallet, nd_ipfs_hash = pool_cid p\<rparr>,
         db\<lparr>nft_cid_distribution_log :=
              nft_cid_distribution_log db
              @ [\<lparr>d_nft_id = fresh, d_wallet_address = toLowerCase wallet, d_rarity = ''rare'',
                   d_cid = pool_cid p, d_distributed_at = now\<rparr>],
            nft_cid_pools :=
              map (\<lambda>q. if pool_id q = pool_id p
                    then q\<lparr>is_distributed := True, distributed_at := Some now,
                           distributed_to_wallet := Some (toLowerCase wallet)\<rparr>
                    else q) (nft_cid_pools db)\<rparr>)"
  using assms
  by (simp add: getResultNFTFromOffchainPool_def pool_claim_def rare_name Let_def)

lemma finish_ok:
  assumes "\<not> insert_burn_transaction_fails (faults env)"
  shows "finish_burn env wallet nfts mixed rule hs r db
      = (\<lparr>success = True, resultNFT = Some r, error_message = None\<rparr>,
         db\<lparr>burn_transactions :=
              burn_transactions db
              @ [\<lparr>bt_wallet_address = toLowerCase wallet, burned_nft_ids = map b_id nfts,
                   result_rarity = resultingRarity rule, burn_type = BurnHybrid,
                   transaction_hash = first_hash hs, created_at = clock env,
                   onchain_nfts = length (filter (\<lambda>n. b_status n = Onchain) nfts),
                   offchain_nfts = length (filter (\<lambda>n. b_status n = Offchain) nfts)\<rparr>]\<rparr>)"
  using assms by (simp add: finish_burn_def logHybridBurnTransaction_def)

lemma try_mixed:
  assumes an: "analyzeNFTSelection (burn_rules env) nfts
      = Inr \<lparr>burnGroups = gs, burnStrategy = mixed, isValid = True, applicableRule = Some rule\<rparr>"
    and on_ne: "filter (\<lambda>n. b_status n = Onchain) nfts \<noteq> []"
    and off_ne: "filter (\<lambda>n. b_status n = Offchain) nfts \<noteq> []"
    and burn: "burnOnchainNFTs (chain env) (filter (\<lambda>n. b_status n = Onchain) nfts) burned
                 = (Inr hs, burned')"
    and del: "burnOffchainNFTsInDatabase (faults env) wallet
                (map b_id (filter (\<lambda>n. b_status n = Offchain) nfts)) db = (Inr (), db1)"
    and get: "getResultNFTFromOffchainPool (faults env) wallet (resultingRarity rule)
                (fresh_id env) (clock env) db1 = (Inr r, db2)"
    and fin: "finish_burn env wallet nfts mixed rule hs r db2 = (br, db3)"
  shows "executeSmartHybridBurn env wallet nfts (burned, db) = (br, burned', db3)"
  unfolding executeSmartHybridBurn_def executeSmartHybridBurn_try_def
  by (simp only: an on_ne off_ne burn del get fin Let_def prod.case sum.case option.case
      selection_analysis.simps burn_strategy.case if_True if_False simp_thms)

text \<open>
  Claim C8. Take any three assets of rarity \<open>common\<close> (in any letter case), two of them
  off-chain and one on-chain, a rule table whose first rule for three \<open>common\<close> assets
  results in \<open>rare\<close>, a chain on which the transfer of the on-chain token goes through, a
  database without faults and a pool with an undistributed \<open>rare\<close> entry \<open>p\<close>. Then the
  selection is classified as \<open>mixed\<close>; the burn succeeds with a \<open>rare\<close> result asset backed
  by \<open>p\<close>; exactly the on-chain token is sent to the burn address; the wallet's rows of the
  two off-chain assets are deleted and the result asset's row is added; exactly one more
  pool entry, \<open>p\<close>, is marked distributed; and exactly one audit row is appended, of burn
  type \<open>hybrid\<close>.
\<close>

theorem mixed_burn_of_three_common:
  assumes len: "length nfts = 3"
    and rar: "\<forall>n\<in>set nfts. toLowerCase (b_rarity n) = ''common''"
    and off: "length (filter (\<lambda>n. b_status n = Offchain) nfts) = 2"
    and rule: "find (\<lambda>r. toLowerCase (minRarity r) = ''common'' \<and> requiredAmount r = 3)
                 (burn_rules env) = Some rule"
    and res: "resultingRarity rule = ''rare''"
    and ready: "contracts_ready (chain env)"
    and tok: "\<forall>n\<in>set nfts. b_status n = Onchain \<longrightarrow>
                \<not> str_includes (b_id n) ''staked_'' \<and> b_stakingStatus n \<noteq> Some Staked
                \<and> b_isStaked n \<noteq> Some True
                \<and> estimateGas_transferFrom (chain env) (token_of n) = Inr gas
                \<and> transferFrom_send (chain env) (token_of n) = Inr h"
    and price: "burn_getGasPrice (chain env) = Inr gasPrice"
    and nf: "faults env = no_faults"
    and pool: "pool_select no_faults ''rare'' db = Inr p"
    and ids: "distinct (map pool_id (nft_cid_pools db))"
  shows "map_sum message burnStrategy (analyzeNFTSelection (burn_rules env) nfts) = Inr mixed
    \<and> fst (executeSmartHybridBurn env wallet nfts (burned, db))
        = \<lparr>success = True,
           resultNFT = Some \<lparr>nd_id = fresh_id env, nd_name = ''NEFTIT Rare NFT'', nd_rarity = ''rare'',
                              nd_wallet_address = wallet, nd_ipfs_hash = pool_cid p\<rparr>,
           error_message = None\<rparr>
    \<and> length (filter (\<lambda>n. b_status n = Onchain) nfts) = 1
    \<and> fst (snd (executeSmartHybridBurn env wallet nfts (burned, db)))
        = burned @ map token_of (filter (\<lambda>n. b_status n = Onchain) nfts)
    \<and> nft_cid_distribution_log (snd (snd (executeSmartHybridBurn env wallet nfts (burned, db))))
        = filter (\<lambda>row. \<not> (d_wallet_address row = toLowerCase wallet
                           \<and> d_nft_id row \<in> set (map b_id (filter (\<lambda>n. b_status n = Offchain) nfts))))
            (nft_cid_distribution_log db)
          @ [\<lparr>d_nft_id = fresh_id env, d_wallet_address = toLowerCase wallet, d_rarity = ''rare'',
               d_cid = pool_cid p, d_distributed_at = clock env\<rparr>]
    \<and> nft_cid_pools (snd (snd (executeSmartHybridBurn env wallet nfts (burned, db))))
        = map (\<lambda>q. if pool_id q = pool_id p
                    then q\<lparr>is_distributed := True, distributed_at := Some (clock env),
                           distributed_to_wallet := Some (toLowerCase wallet)\<rparr>
                    else q) (nft_cid_pools db)
    \<and> length (filter is_distributed
          (nft_cid_pools (snd (snd (executeSmartHybridBurn env wallet nfts (burned, db))))))
        = Suc (length (filter is_distributed (nft_cid_pools db)))
    \<and> burn_transactions (snd (snd (executeSmartHybridBurn env wallet nfts (burned, db))))
        = burn_transactions db
          @ [\<lparr>bt_wallet_address = toLowerCase wallet, burned_nft_ids = map b_id nfts,
               result_rarity = ''rare'', burn_type = BurnHybrid, transaction_hash = first_hash [h],
               created_at = clock env, onchain_nfts = 1, offchain_nfts = 2\<rparr>]"
proof -
  let ?on = "filter (\<lambda>n. b_status n = Onchain) nfts"
  let ?off = "filter (\<lambda>n. b_status n = Offchain) nfts"
  let ?res = "\<lparr>nd_id = fresh_id env, nd_name = ''NEFTIT Rare NFT'', nd_rarity = ''rare'',
               nd_wallet_address = wallet, nd_ipfs_hash = pool_cid p\<rparr>"
  obtain gs where an: "analyzeNFTSelection (burn_rules env) nfts
      = Inr \<lparr>burnGroups = gs, burnStrategy = mixed, isValid = True, applicableRule = Some rule\<rparr>"
    using analyze_three_common [OF len rar off rule] by blast
  have on1: "length ?on = 1"
    using count_by_status [of nfts] len off by simp
  then have on_ne: "?on \<noteq> []" by auto
  from off have off_ne: "?off \<noteq> []" by auto
  have fl: "delete_error (faults env) = None" "insert_log_error (faults env) = None"
    "\<not> update_pool_fails (faults env)" "\<not> insert_burn_transaction_fails (faults env)"
    by (simp_all add: nf no_faults_def)
  have tok': "\<forall>n\<in>set ?on.
                \<not> str_includes (b_id n) ''staked_'' \<and> b_stakingStatus n \<noteq> Some Staked
                \<and> b_isStaked n \<noteq> Some True
                \<and> estimateGas_transferFrom (chain env) (token_of n) = Inr gas
                \<and> transferFrom_send (chain env) (token_of n) = Inr h"
    using tok by simp
  have burn: "burnOnchainNFTs (chain env) ?on burned = (Inr [h], burned @ map token_of ?on)"
    using on1 ready tok' price by (rule burn_ok)
  define db1 where "db1 =
    db\<lparr>nft_cid_distribution_log :=
         filter (\<lambda>row. \<not> (d_wallet_address row = toLowerCase wallet
                           \<and> d_nft_id row \<in> set (map b_id ?off)))
           (nft_cid_distribution_log db)\<rparr>"
  have del: "burnOffchainNFTsInDatabase (faults env) wallet (map b_id ?off) db = (Inr (), db1)"
    unfolding db1_def using fl(1) by (rule delete_ok)
  have "pool_select (faults env) ''rare'' db1 = pool_select (faults env) ''rare'' db"
    by (rule pool_select_pools) (simp add: db1_def)
  with pool have sel: "pool_select (faults env) ''rare'' db1 = Inr p"
    by (simp add: nf)
  define db2 where "db2 =
    db1\<lparr>nft_cid_distribution_log :=
          nft_cid_distribution_log db1
          @ [\<lparr>d_nft_id = fresh_id env, d_wallet_address = toLowerCase wallet, d_rarity = ''rare'',
               d_cid = pool_cid p, d_distributed_at = clock env\<rparr>],
        nft_cid_pools :=
          map (\<lambda>q. if pool_id q = pool_id p
                then q\<lparr>is_distributed := True, distributed_at := Some (clock env),
                       distributed_to_wallet := Some (toLowerCase wallet)\<rparr>
                else q) (nft_cid_pools db1)\<rparr>"
  have get: "getResultNFTFromOffchainPool (faults env) wallet (resultingRarity rule)
               (fresh_id env) (clock env) db1 = (Inr ?res, db2)"
    unfolding res db2_def using sel fl(2,3) by (rule get_ok)
  define db3 where "db3 =
    db2\<lparr>burn_transactions :=
          burn_transactions db2
          @ [\<lparr>bt_wallet_address = toLowerCase wallet, burned_nft_ids = map b_id nfts,
               result_rarity = resultingRarity rule, burn_type = BurnHybrid,
               transaction_hash = first_hash [h], created_at = clock env,
               onchain_nfts = length ?on, offchain_nfts = length ?off\<rparr>]\<rparr>"
  have fin: "finish_burn env wallet nfts mixed rule [h] ?res db2
      = (\<lparr>success = True, resultNFT = Some ?res, error_message = None\<rparr>, db3)"
    unfolding db3_def using fl(4) by (rule finish_ok)
  note ex = try_mixed [OF an on_ne off_ne burn del get fin]
  have p_in: "p \<in> set (nft_cid_pools db)" and p_nd: "\<not> is_distributed p"
    using pool by (auto simp add: pool_select_def find_Some_iff split: if_splits option.splits)
  have cnt: "length (filter is_distributed
        (map (\<lambda>q. if pool_id q = pool_id p
                    then q\<lparr>is_distributed := True, distributed_at := Some (clock env),
                           distributed_to_wallet := Some (toLowerCase wallet)\<rparr>
                    else q) (nft_cid_pools db)))
      = Suc (length (filter is_distributed (nft_cid_pools db)))"
    using ids p_in p_nd by (rule mark_one_distributed)
  have strat: "map_sum message burnStrategy (analyzeNFTSelection (burn_rules env) nfts) = Inr mixed"
    by (simp add: an)
  have state: "nft_cid_distribution_log db3
        = filter (\<lambda>row. \<not> (d_wallet_address row = toLowerCase wallet
                           \<and> d_nft_id row \<in> set (map b_id ?off)))
            (nft_cid_distribution_log db)
          @ [\<lparr>d_nft_id = fresh_id env, d_wallet_address = toLowerCase wallet, d_rarity = ''rare'',
               d_cid = pool_cid p, d_distributed_at = clock env\<rparr>]"
    "nft_cid_pools db3
        = map (\<lambda>q. if pool_id q = pool_id p
                    then q\<lparr>is_distributed := True, distributed_at := Some (clock env),
                           distributed_to_wallet := Some (toLowerCase wallet)\<rparr>
                    else q) (nft_cid_pools db)"
    "burn_transactions db3
        = burn_transactions db
          @ [\<lparr>bt_wallet_address = toLowerCase wallet, burned_nft_ids = map b_id nfts,
               result_rarity = ''rare'', burn_type = BurnHybrid, transaction_hash = first_hash [h],
               created_at = clock env, onchain_nfts = 1, offchain_nfts = 2\<rparr>]"
    by (simp_all add: db3_def db2_def db1_def res on1 off)
  show ?thesis
    unfolding ex fst_conv snd_conv state
    using strat on1 cnt by simp
qed

theorem mixed_burn_of_three_common_witness:
  "length [off_1, on_42, off_2] = 3
   \<and> map (\<lambda>n. toLowerCase (b_rarity n)) [off_1, on_42, off_2] = [''common'', ''common'', ''common'']
   \<and> length (filter (\<lambda>n. b_status n = Offchain) [off_1, on_42, off_2]) = 2
   \<and> find (\<lambda>r. toLowerCase (minRarity r) = ''common'' \<and> requiredAmount r = 3)
         (burn_rules scenario_env) = Some common_to_rare
   \<and> resultingRarity common_to_rare = ''rare''
   \<and> contracts_ready (chain scenario_env)
   \<and> map b_status [off_1, on_42, off_2] = [Offchain, Onchain, Offchain]
   \<and> \<not> str_includes (b_id on_42) ''staked_'' \<and> b_stakingStatus on_42 \<noteq> Some Staked
   \<and> b_isStaked on_42 \<noteq> Some True
   \<and> estimateGas_transferFrom (chain scenario_env) (token_of on_42) = Inr 60000
   \<and> transferFrom_send (chain scenario_env) (token_of on_42) = Inr ''0xburn42''
   \<and> burn_getGasPrice (chain scenario_env) = Inr 30
   \<and> faults scenario_env = no_faults
   \<and> pool_select no_faults ''rare'' scenario_db = Inr pool_2
   \<and> distinct (map pool_id (nft_cid_pools scenario_db))
   \<and> map_sum message burnStrategy (analyzeNFTSelection (burn_rules scenario_env) [off_1, on_42, off_2])
       = Inr mixed
   \<and> success (fst (executeSmartHybridBurn scenario_env ''0xAA'' [off_1, on_42, off_2] ([], scenario_db)))
   \<and> map_option nd_ipfs_hash
        (resultNFT (fst (executeSmartHybridBurn scenario_env ''0xAA'' [off_1, on_42, off_2] ([], scenario_db))))
       = Some ''cidR1''
   \<and> fst (snd (executeSmartHybridBurn scenario_env ''0xAA'' [off_1, on_42, off_2] ([], scenario_db)))
       = [Some 42]
   \<and> map d_nft_id (nft_cid_distribution_log
         (snd (snd (executeSmartHybridBurn scenario_env ''0xAA'' [off_1, on_42, off_2] ([], scenario_db)))))
       = [''off_9'', ''uuid-1'']
   \<and> map is_distributed (nft_cid_pools
         (snd (snd (executeSmartHybridBurn scenario_env ''0xAA'' [off_1, on_42, off_2] ([], scenario_db)))))
       = [False, True, False]
   \<and> map burn_type (burn_transactions
         (snd (snd (executeSmartHybridBurn scenario_env ''0xAA'' [off_1, on_42, off_2] ([], scenario_db)))))
       = [BurnHybrid]"
proof -
  have h1: "length [off_1, on_42, off_2] = 3" by simp
  have h2: "\<forall>n\<in>set [off_1, on_42, off_2]. toLowerCase (b_rarity n) = ''common''"
    by (simp add: off_1_def on_42_def off_2_def lower_common)
  have h3: "length (filter (\<lambda>n. b_status n = Offchain) [off_1, on_42, off_2]) = 2"
    by (simp add: off_1_def on_42_def off_2_def)
  have h4: "find (\<lambda>r. toLowerCase (minRarity r) = ''common'' \<and> requiredAmount r = 3)
         (burn_rules scenario_env) = Some common_to_rare"
    by (simp add: scenario_env_def common_to_rare_def lower_common)
  have h5: "resultingRarity common_to_rare = ''rare''" by (simp add: common_to_rare_def)
  have h6: "contracts_ready (chain scenario_env)" by (simp add: scenario_env_def good_chain_def)
  have inc: "\<not> str_includes ''onchain_42'' ''staked_''" by simp
  have h7: "\<forall>n\<in>set [off_1, on_42, off_2]. b_status n = Onchain \<longrightarrow>
          \<not> str_includes (b_id n) ''staked_'' \<and> b_stakingStatus n \<noteq> Some Staked
          \<and> b_isStaked n \<noteq> Some True
          \<and> estimateGas_transferFrom (chain scenario_env) (token_of n) = Inr 60000
          \<and> transferFrom_send (chain scenario_env) (token_of n) = Inr ''0xburn42''"
    using inc
    by (simp add: off_1_def off_2_def token_on_42 scenario_env_def good_chain_def show_42)
      (simp add: on_42_def)
  have h8: "burn_getGasPrice (chain scenario_env) = Inr 30"
    by (simp add: scenario_env_def good_chain_def)
  have h9: "faults scenario_env = no_faults" by (simp add: scenario_env_def)
  have h10: "pool_select no_faults ''rare'' scenario_db = Inr pool_2"
    by (simp add: pool_select_def no_faults_def scenario_db_def pool_1_def pool_2_def lower_common)
  have h11: "distinct (map pool_id (nft_cid_pools scenario_db))"
    by (simp add: scenario_db_def pool_1_def pool_2_def pool_3_def)
  note t = mixed_burn_of_three_common [OF h1 h2 h3 h4 h5 h6 h7 h8 h9 h10 h11, of "''0xAA''" "[]"]
  have on: "filter (\<lambda>n. b_status n = Onchain) [off_1, on_42, off_2] = [on_42]"
    by (simp add: off_1_def on_42_def off_2_def)
  have offs: "map b_id (filter (\<lambda>n. b_status n = Offchain) [off_1, on_42, off_2]) = [''off_1'', ''off_2'']"
    by (simp add: off_1_def on_42_def off_2_def)
  note t1 = t [THEN conjunct1]
  note t2 = t [THEN conjunct2, THEN conjunct1]
  note t4 = t [THEN conjunct2, THEN conjunct2, THEN conjunct2, THEN conjunct1]
  note t5 = t [THEN conjunct2, THEN conjunct2, THEN conjunct2, THEN conjunct2, THEN conjunct1]
  note t6 = t [THEN conjunct2, THEN conjunct2, THEN conjunct2, THEN conjunct2, THEN conjunct2,
    THEN conjunct1]
  note t8 = t [THEN conjunct2, THEN conjunct2, THEN conjunct2, THEN conjunct2, THEN conjunct2,
    THEN conjunct2, THEN conjunct2]
  have c1: "map_sum message burnStrategy (analyzeNFTSelection (burn_rules scenario_env) [off_1, on_42, off_2])
       = Inr mixed"
    by (rule t1)
  have c2: "success (fst (executeSmartHybridBurn scenario_env ''0xAA'' [off_1, on_42, off_2] ([], scenario_db)))"
    and c3: "map_option nd_ipfs_hash
        (resultNFT (fst (executeSmartHybridBurn scenario_env ''0xAA'' [off_1, on_42, off_2] ([], scenario_db))))
       = Some ''cidR1''"
    unfolding t2 by (simp_all add: pool_2_def)
  have c4: "fst (snd (executeSmartHybridBurn scenario_env ''0xAA'' [off_1, on_42, off_2] ([], scenario_db)))
       = [Some 42]"
    unfolding t4 on by (simp add: token_on_42)
  have c5: "map d_nft_id (nft_cid_distribution_log
         (snd (snd (executeSmartHybridBurn scenario_env ''0xAA'' [off_1, on_42, off_2] ([], scenario_db)))))
       = [''off_9'', ''uuid-1'']"
    unfolding t5 offs by (simp add: lower_common scenario_db_def owned_def scenario_env_def)
  have c6: "map is_distributed (nft_cid_pools
         (snd (snd (executeSmartHybridBurn scenario_env ''0xAA'' [off_1, on_42, off_2] ([], scenario_db)))))
       = [False, True, False]"
    unfolding t6 by (simp add: scenario_db_def pool_1_def pool_2_def pool_3_def)
  have c7: "map burn_type (burn_transactions
         (snd (snd (executeSmartHybridBurn scenario_env ''0xAA'' [off_1, on_42, off_2] ([], scenario_db)))))
       = [BurnHybrid]"
    unfolding t8 by (simp add: scenario_db_def)
  have w2: "map (\<lambda>n. toLowerCase (b_rarity n)) [off_1, on_42, off_2] = [''common'', ''common'', ''common'']"
    using h2 by simp
  have w7: "map b_status [off_1, on_42, off_2] = [Offchain, Onchain, Offchain]"
    by (simp add: off_1_def on_42_def off_2_def)
  have w8: "\<not> str_includes (b_id on_42) ''staked_''" "b_stakingStatus on_42 \<noteq> Some Staked"
    "b_isStaked on_42 \<noteq> Some True"
    "estimateGas_transferFrom (chain scenario_env) (token_of on_42) = Inr 60000"
    "transferFrom_send (chain scenario_env) (token_of on_42) = Inr ''0xburn42''"
    using h7 w7 by simp_all
  show ?thesis
    by (intro conjI h1 w2 h3 h4 h5 h6 w7 w8 h8 h9 h10 h11 c1 c2 c3 c4 c5 c6 c7)
qed

end
